theory Spec2Isabelle
  imports Complex_Main "HOL-Library.Multiset" "HOL-Library.Monad_Syntax"
begin

section \<open>Strings of the runtime\<close>

text \<open>
  A string is a list of code units; the model covers the code units U+0000 to U+00FF,
  one \<^typ>\<open>char\<close> each.
\<close>

definition digit_char :: "nat \<Rightarrow> char" where
  "digit_char n = char_of (48 + n)"

text \<open>The decimal numeral of a non-negative integer, as \<open>String(n)\<close> prints it.\<close>

function dec :: "nat \<Rightarrow> string" where
  "dec n = (if n < 10 then [digit_char n] else dec (n div 10) @ [digit_char (n mod 10)])"
  by pat_completeness auto
termination
  by (relation "measure (\<lambda>n. n)") auto

declare dec.simps [simp del]

definition is_digit :: "char \<Rightarrow> bool" where
  "is_digit c = (48 \<le> (of_char c :: nat) \<and> (of_char c :: nat) \<le> 57)"

definition parse_nat :: "string \<Rightarrow> nat" where
  "parse_nat s = foldl (\<lambda>acc c. 10 * acc + ((of_char c :: nat) - 48)) 0 s"

text \<open>\<open>String.prototype.toLowerCase\<close> on the code units of the model.\<close>

definition lower_char :: "char \<Rightarrow> char" where
  "lower_char c =
     (let n = (of_char c :: nat)
      in if (65 \<le> n \<and> n \<le> 90) \<or> (192 \<le> n \<and> n \<le> 222 \<and> n \<noteq> 215)
         then char_of (n + 32) else c)"

definition toLowerCase :: "string \<Rightarrow> string" where
  "toLowerCase s = map lower_char s"

text \<open>\<open>s.includes(t)\<close>: \<open>t\<close> occurs in \<open>s\<close> as a contiguous run.\<close>

fun str_includes :: "string \<Rightarrow> string \<Rightarrow> bool" where
  "str_includes [] t = (t = [])"
| "str_includes (c # s) t = (take (length t) (c # s) = t \<or> str_includes s t)"

text \<open>\<open>parts.join(sep)\<close>.\<close>

fun join :: "string \<Rightarrow> string list \<Rightarrow> string" where
  "join sep [] = []"
| "join sep [x] = x"
| "join sep (x # y # ys) = x @ sep @ join sep (y # ys)"

text \<open>
  \<open>!s.trim()\<close>: the string is empty once white space is stripped, that is, every
  code unit of it is white space (tab, line feed, vertical tab, form feed, carriage
  return, space, no-break space).
\<close>

definition is_white_space :: "char \<Rightarrow> bool" where
  "is_white_space c =
     (let n = (of_char c :: nat) in (9 \<le> n \<and> n \<le> 13) \<or> n = 32 \<or> n = 160)"

definition trim_is_empty :: "string \<Rightarrow> bool" where
  "trim_is_empty s = list_all is_white_space s"


section \<open>The cache key\<close>

text \<open>
  \<open>JSON.stringify\<close> of a plain object. The object is given as the list of its
  properties in creation order, with distinct keys. The runtime enumerates the keys that
  are array indices first, in ascending numeric order, and then the other keys in creation
  order. A key is an array index when it is the canonical numeral of an integer below
  \<open>2^32 - 1\<close>.
\<close>

definition is_array_index :: "string \<Rightarrow> bool" where
  "is_array_index k =
     (k \<noteq> [] \<and> list_all is_digit k \<and> dec (parse_nat k) = k \<and> parse_nat k < 2 ^ 32 - 1)"

definition index_entries :: "(string \<times> 'v) list \<Rightarrow> (string \<times> 'v) list" where
  "index_entries ps = filter (\<lambda>p. is_array_index (fst p)) ps"

definition named_entries :: "(string \<times> 'v) list \<Rightarrow> (string \<times> 'v) list" where
  "named_entries ps = filter (\<lambda>p. \<not> is_array_index (fst p)) ps"

definition own_entries :: "(string \<times> 'v) list \<Rightarrow> (string \<times> 'v) list" where
  "own_entries ps = sort_key (\<lambda>p. parse_nat (fst p)) (index_entries ps) @ named_entries ps"

definition hex_char :: "nat \<Rightarrow> char" where
  "hex_char n = (if n < 10 then char_of (48 + n) else char_of (87 + n))"

text \<open>The escape of one code unit inside a JSON string literal.\<close>

definition escape_char :: "char \<Rightarrow> string" where
  "escape_char c =
     (let n = (of_char c :: nat)
      in if n = 8 then [CHR 0x5C, CHR ''b'']
         else if n = 9 then [CHR 0x5C, CHR ''t'']
         else if n = 10 then [CHR 0x5C, CHR ''n'']
         else if n = 12 then [CHR 0x5C, CHR ''f'']
         else if n = 13 then [CHR 0x5C, CHR ''r'']
         else if n = 34 then [CHR 0x5C, CHR 0x22]
         else if n = 92 then [CHR 0x5C, CHR 0x5C]
         else if n < 32 then [CHR 0x5C, CHR ''u'', CHR ''0'', CHR ''0'', hex_char (n div 16), hex_char (n mod 16)]
         else [c])"

definition quote :: "string \<Rightarrow> string" where
  "quote s = [CHR 0x22] @ concat (map escape_char s) @ [CHR 0x22]"

text \<open>
  The serialisation of a property value is a parameter \<open>ser\<close>: \<open>None\<close> for a
  value that \<open>JSON.stringify\<close> leaves out of an object (\<open>undefined\<close>, a function),
  the JSON text otherwise.
\<close>

definition property_text :: "('v \<Rightarrow> string option) \<Rightarrow> string \<times> 'v \<Rightarrow> string option" where
  "property_text ser p = map_option (\<lambda>s. quote (fst p) @ '':'' @ s) (ser (snd p))"

definition JSON_stringify :: "('v \<Rightarrow> string option) \<Rightarrow> (string \<times> 'v) list \<Rightarrow> string" where
  "JSON_stringify ser params =
     ''{'' @ join '','' (List.map_filter (property_text ser) (own_entries params)) @ ''}''"

definition getCacheKey :: "('v \<Rightarrow> string option) \<Rightarrow> string \<Rightarrow> (string \<times> 'v) list \<Rightarrow> string" where
  "getCacheKey ser endpoint params = endpoint @ ''-'' @ JSON_stringify ser params"

text \<open>String-valued parameters: the value is printed as a JSON string literal.\<close>

definition json_of_string :: "string \<Rightarrow> string option" where
  "json_of_string s = Some (quote s)"


section \<open>The cache and the cached fetch\<close>

record 'd cache_entry =
  data :: 'd
  timestamp :: int

type_synonym 'd cache = "string \<rightharpoonup> 'd cache_entry"

definition CACHE_DURATION :: int where
  "CACHE_DURATION = 10 * 60 * 1000"

text \<open>\<open>isDataExpired\<close>; the first argument is the value of \<open>Date.now()\<close>.\<close>

definition isDataExpired :: "int \<Rightarrow> int \<Rightarrow> bool" where
  "isDataExpired now ts = (now - ts > CACHE_DURATION)"

text \<open>A thrown \<open>Error\<close> object, with its message.\<close>

datatype error = Error string

text \<open>
  What \<open>fetch(url)\<close> followed by \<open>response.json()\<close> comes to: the fetch is
  rejected (with a message), the response is not \<open>ok\<close> (with its status text), the body
  is not JSON (with the parser's message), or the parsed body.
\<close>

datatype 'd response = Rejected string | NotOk string | BadJson string | Ok 'd

text \<open>
  The surroundings of one call of \<open>fetchWithCache\<close>: how parameter values print in
  JSON, what \<open>new URLSearchParams(params).toString()\<close> gives, what the network
  answers, and the two readings of the clock (at the expiry test and at \<open>cache.set\<close>).
\<close>

record ('v, 'd) runtime =
  json_value :: "'v \<Rightarrow> string option"
  url_params :: "(string \<times> 'v) list \<Rightarrow> string"
  fetch :: "string \<Rightarrow> 'd response"
  now_check :: int
  now_store :: int

definition api_url :: "('v, 'd, 'z) runtime_scheme \<Rightarrow> string \<Rightarrow> (string \<times> 'v) list \<Rightarrow> string" where
  "api_url rt endpoint params =
     (let queryString = url_params rt params
      in ''/api/'' @ endpoint @ (if queryString \<noteq> [] then ''?'' @ queryString else []))"

text \<open>
  \<open>fetchWithCache\<close> returns the payload or the error it throws, and the cache as it
  leaves it. The call is taken as one step: no other call writes to the cache between its
  lookup and its \<open>cache.set\<close>.
\<close>

definition fetchWithCache ::
  "('v, 'd, 'z) runtime_scheme \<Rightarrow> 'd cache \<Rightarrow> string \<Rightarrow> (string \<times> 'v) list
     \<Rightarrow> (error + 'd) \<times> 'd cache" where
  "fetchWithCache rt cache endpoint params =
     (let cacheKey = getCacheKey (json_value rt) endpoint params;
          cached = cache cacheKey
      in if cached \<noteq> None \<and> \<not> isDataExpired (now_check rt) (timestamp (the cached))
         then (Inr (data (the cached)), cache)
         else (case fetch rt (api_url rt endpoint params) of
                 Rejected m \<Rightarrow> (Inl (Error m), cache)
               | NotOk statusText \<Rightarrow> (Inl (Error (''API request failed: '' @ statusText)), cache)
               | BadJson m \<Rightarrow> (Inl (Error m), cache)
               | Ok d \<Rightarrow> (Inr d, cache(cacheKey \<mapsto> \<lparr>data = d, timestamp = now_store rt\<rparr>))))"

definition clearCache :: "'d cache \<Rightarrow> 'd cache" where
  "clearCache cache = Map.empty"


section \<open>Numbers of the runtime\<close>

text \<open>
  A number is a double: not-a-number, an infinity, or a finite value that the format
  holds (negative zero is not told from zero). The arithmetic of the runtime gives the
  double nearest to the exact result, a tie going to the even significand: \<open>fl\<close>.
\<close>

datatype number = NaN | PosInf | NegInf | Finite real

definition round_half_even :: "real \<Rightarrow> int" where
  "round_half_even z =
     (let f = \<lfloor>z\<rfloor>
      in if z - of_int f < 1 / 2 then f
         else if 1 / 2 < z - of_int f then f + 1
         else if even f then f else f + 1)"

text \<open>The exponent of the binade of \<open>x\<close>; the subnormal numbers share the lowest one.\<close>

definition binade :: "real \<Rightarrow> int" where
  "binade x = max \<lfloor>log 2 \<bar>x\<bar>\<rfloor> (- 1022)"

definition fl :: "real \<Rightarrow> number" where
  "fl x =
     (if x = 0 then Finite 0
      else
        (let q = 2 powi (binade x - 52);
             y = of_int (round_half_even (x / q)) * q
         in if 2 ^ 1024 \<le> \<bar>y\<bar> then (if 0 < x then PosInf else NegInf) else Finite y))"

definition is_zero :: "number \<Rightarrow> bool" where
  "is_zero a = (a = Finite 0)"

definition is_infinite :: "number \<Rightarrow> bool" where
  "is_infinite a = (a = PosInf \<or> a = NegInf)"

definition positive :: "number \<Rightarrow> bool" where
  "positive a = (case a of PosInf \<Rightarrow> True | Finite x \<Rightarrow> 0 \<le> x | _ \<Rightarrow> False)"

text \<open>The operators \<open>*\<close>, \<open>/\<close> and \<open>+\<close> on numbers.\<close>

definition js_times :: "number \<Rightarrow> number \<Rightarrow> number" where
  "js_times a b =
     (case (a, b) of
        (Finite x, Finite y) \<Rightarrow> fl (x * y)
      | _ \<Rightarrow>
          if a = NaN \<or> b = NaN \<or> is_zero a \<or> is_zero b then NaN
          else if positive a = positive b then PosInf else NegInf)"

definition js_over :: "number \<Rightarrow> number \<Rightarrow> number" where
  "js_over a b =
     (if a = NaN \<or> b = NaN \<or> (is_infinite a \<and> is_infinite b) \<or> (is_zero a \<and> is_zero b) then NaN
      else if is_infinite b then Finite 0
      else if is_infinite a \<or> is_zero b then (if positive a = positive b then PosInf else NegInf)
      else (case (a, b) of (Finite x, Finite y) \<Rightarrow> fl (x / y) | _ \<Rightarrow> NaN))"

definition js_plus :: "number \<Rightarrow> number \<Rightarrow> number" where
  "js_plus a b =
     (case (a, b) of
        (Finite x, Finite y) \<Rightarrow> fl (x + y)
      | _ \<Rightarrow>
          if a = NaN \<or> b = NaN \<or> (a = PosInf \<and> b = NegInf) \<or> (a = NegInf \<and> b = PosInf) then NaN
          else if is_infinite a then a else b)"

text \<open>\<open>Math.round\<close> takes a half upwards; \<open>Math.floor\<close>.\<close>

definition Math_round :: "number \<Rightarrow> number" where
  "Math_round a = (case a of Finite x \<Rightarrow> Finite (of_int \<lfloor>x + 1 / 2\<rfloor>) | _ \<Rightarrow> a)"

definition Math_floor :: "number \<Rightarrow> number" where
  "Math_floor a = (case a of Finite x \<Rightarrow> Finite (of_int \<lfloor>x\<rfloor>) | _ \<Rightarrow> a)"


section \<open>Values of the runtime\<close>

text \<open>
  A parsed JSON body, or a member read off one: \<open>undefined\<close>, \<open>null\<close>, a boolean, a
  number, a string, an array, or an object, given as the list of its members with distinct
  keys.
\<close>

datatype js =
  JUndefined
| JNull
| JBool bool
| JNum number
| JStr string
| JArr "js list"
| JObj "(string \<times> js) list"

text \<open>
  \<open>x.k\<close> and \<open>x[0]\<close> (the key \<open>0\<close>): \<open>None\<close> where the runtime throws a
  \<open>TypeError\<close>, on \<open>undefined\<close> and \<open>null\<close>. An object gives its own member or
  \<open>undefined\<close>; an array and a string give the element at an index key; a number and a
  boolean give \<open>undefined\<close>. The keys are those that the service reads; none of them
  names a method of the prototypes, but for \<open>pop\<close> of an array, which the service reads
  off an entry only after a read that throws on an array.
\<close>

definition read_member :: "js \<Rightarrow> string \<Rightarrow> js option" where
  "read_member x k =
     (case x of
        JUndefined \<Rightarrow> None
      | JNull \<Rightarrow> None
      | JObj ms \<Rightarrow> Some (case map_of ms k of None \<Rightarrow> JUndefined | Some v \<Rightarrow> v)
      | JArr xs \<Rightarrow>
          Some (if is_array_index k \<and> parse_nat k < length xs then xs ! parse_nat k
                else JUndefined)
      | JStr s \<Rightarrow>
          Some (if is_array_index k \<and> parse_nat k < length s then JStr [s ! parse_nat k]
                else JUndefined)
      | _ \<Rightarrow> Some JUndefined)"

text \<open>
  The receiver of \<open>.slice(0, n).map(f)\<close>: the elements of an array; on anything else
  one of the two calls throws a \<open>TypeError\<close>.
\<close>

definition elements :: "js \<Rightarrow> js list option" where
  "elements x = (case x of JArr xs \<Rightarrow> Some xs | _ \<Rightarrow> None)"

text \<open>The receiver of \<open>.toLowerCase()\<close>: a string; anything else throws a \<open>TypeError\<close>.\<close>

definition string_of :: "js \<Rightarrow> string option" where
  "string_of x = (case x of JStr s \<Rightarrow> Some s | _ \<Rightarrow> None)"

definition truthy :: "js \<Rightarrow> bool" where
  "truthy x =
     (case x of
        JUndefined \<Rightarrow> False
      | JNull \<Rightarrow> False
      | JBool b \<Rightarrow> b
      | JNum n \<Rightarrow> n \<noteq> NaN \<and> n \<noteq> Finite 0
      | JStr s \<Rightarrow> s \<noteq> []
      | _ \<Rightarrow> True)"

definition is_string :: "js \<Rightarrow> bool" where
  "is_string x = (case x of JStr s \<Rightarrow> True | _ \<Rightarrow> False)"

definition is_number :: "js \<Rightarrow> bool" where
  "is_number x = (case x of JNum n \<Rightarrow> True | _ \<Rightarrow> False)"

text \<open>A member that may be left out: a number or \<open>undefined\<close>.\<close>

definition is_optional_number :: "js \<Rightarrow> bool" where
  "is_optional_number x = (x = JUndefined \<or> is_number x)"

text \<open>The member at the end of a path of keys, \<open>undefined\<close> where the path breaks.\<close>

fun leaf :: "js \<Rightarrow> string list \<Rightarrow> js" where
  "leaf x [] = x"
| "leaf x (k # ks) = (case read_member x k of None \<Rightarrow> JUndefined | Some y \<Rightarrow> leaf y ks)"

section \<open>View models\<close>

text \<open>
  A member that the service computes has the type of what it computes: a string from a
  template or a formatter, a number from \<open>Math.round\<close> or an operator. A member that
  the service copies from the payload holds whatever the payload holds there. The day
  label is \<open>None\<close> where the source leaves it \<open>undefined\<close>.
\<close>

record coordinates =
  lat :: js
  lon :: js

record WeatherData =
  location :: string
  temperature :: number
  condition :: js
  humidity :: js
  windSpeed :: number
  visibility :: number
  feelsLike :: number
  icon :: js
  pressure :: js
  uvIndex :: js
  coordinates :: coordinates

record HourlyForecast =
  time :: string
  temperature :: number
  condition :: js
  humidity :: js
  precipitation :: number
  windSpeed :: number
  icon :: js

record DailyForecast =
  date :: string
  day :: "string option"
  highTemp :: number
  lowTemp :: number
  condition :: js
  precipitation :: number
  humidity :: js
  windSpeed :: number
  icon :: js
  uvIndex :: js

datatype alert_type = Severe | Moderate | Minor

datatype alert_category = Storm | Rain | Wind | Snow | Temperature | Other

text \<open>The members \<open>id\<close> and \<open>type\<close> of an alert are \<open>alert_id\<close> and \<open>tier\<close> here.\<close>

record WeatherAlert =
  alert_id :: string
  tier :: alert_type
  category :: alert_category
  title :: string
  description :: js
  location :: string
  severity :: real
  startTime :: string
  endTime :: string
  isActive :: bool

text \<open>
  A view model is structurally valid when every member has the type that its interface
  declares; that is a condition on the copied members and on the day label.
\<close>

definition valid_WeatherData :: "WeatherData \<Rightarrow> bool" where
  "valid_WeatherData v =
     (is_string (WeatherData.condition v) \<and> is_number (WeatherData.humidity v)
      \<and> is_string (WeatherData.icon v) \<and> is_number (WeatherData.pressure v)
      \<and> is_optional_number (WeatherData.uvIndex v)
      \<and> is_number (coordinates.lat (WeatherData.coordinates v))
      \<and> is_number (coordinates.lon (WeatherData.coordinates v)))"

definition valid_HourlyForecast :: "HourlyForecast \<Rightarrow> bool" where
  "valid_HourlyForecast v =
     (is_string (HourlyForecast.condition v) \<and> is_number (HourlyForecast.humidity v)
      \<and> is_string (HourlyForecast.icon v))"

definition valid_DailyForecast :: "DailyForecast \<Rightarrow> bool" where
  "valid_DailyForecast v =
     (DailyForecast.day v \<noteq> None
      \<and> is_string (DailyForecast.condition v) \<and> is_number (DailyForecast.humidity v)
      \<and> is_string (DailyForecast.icon v) \<and> is_optional_number (DailyForecast.uvIndex v))"

definition valid_WeatherAlert :: "WeatherAlert \<Rightarrow> bool" where
  "valid_WeatherAlert v = is_string (WeatherAlert.description v)"

section \<open>Dates, random numbers and the surroundings of a call\<close>

text \<open>
  The surroundings of one call of a fetcher: how a finite number prints, what number a
  string converts to, the query string of the parameters, the network, the clock, the
  entropy behind \<open>Math.random()\<close> and its fineness, the clock read by \<open>new Date()\<close> in the \<open>i\<close>-th
  callback of the fallback, the offset of local time, and the texts that the locale and
  ISO formatting give for a time value.
\<close>

text \<open>The values of the request parameters: numbers and strings.\<close>

datatype pval = PNum real | PStr string

record world =
  number_text :: "real \<Rightarrow> string"
  string_number :: "string \<Rightarrow> number"
  query_string :: "(string \<times> pval) list \<Rightarrow> string"
  network :: "string \<Rightarrow> js response"
  clock_check :: int
  clock_store :: int
  entropy :: "nat \<Rightarrow> nat"
  fineness :: "nat \<Rightarrow> nat"
  clock_at :: "nat \<Rightarrow> int"
  LocalTZA :: "int \<Rightarrow> int"
  locale_time :: "int option \<Rightarrow> string"
  locale_date :: "int option \<Rightarrow> string"
  iso_text :: "int \<Rightarrow> string"

definition json_of_pval :: "(real \<Rightarrow> string) \<Rightarrow> pval \<Rightarrow> string option" where
  "json_of_pval num v = (case v of PNum x \<Rightarrow> Some (num x) | PStr s \<Rightarrow> Some (quote s))"

definition runtime_of :: "world \<Rightarrow> (pval, js) runtime" where
  "runtime_of w =
     \<lparr>json_value = json_of_pval (number_text w), url_params = query_string w,
      fetch = network w, now_check = clock_check w, now_store = clock_store w\<rparr>"

text \<open>The string of a number, as a template prints it.\<close>

definition number_string :: "world \<Rightarrow> number \<Rightarrow> string" where
  "number_string w n =
     (case n of
        NaN \<Rightarrow> ''NaN''
      | PosInf \<Rightarrow> ''Infinity''
      | NegInf \<Rightarrow> ''-Infinity''
      | Finite x \<Rightarrow> number_text w x)"

text \<open>
  \<open>${x}\<close> in a template: an array prints its elements joined by commas, with nothing
  for \<open>undefined\<close> and \<open>null\<close>; an object prints as \<open>[object Object]\<close>, unless it
  has a member \<open>toString\<close> of its own, which hides the method and is no function: then
  the conversion throws a \<open>TypeError\<close> (\<open>None\<close>).
\<close>

fun to_string :: "world \<Rightarrow> js \<Rightarrow> string option" where
  "to_string w JUndefined = Some ''undefined''"
| "to_string w JNull = Some ''null''"
| "to_string w (JBool b) = Some (if b then ''true'' else ''false'')"
| "to_string w (JNum n) = Some (number_string w n)"
| "to_string w (JStr s) = Some s"
| "to_string w (JArr xs) =
     map_option (join '','')
       (those (map (\<lambda>x. if x = JUndefined \<or> x = JNull then Some [] else to_string w x) xs))"
| "to_string w (JObj ms) =
     (if map_of ms ''toString'' = None then Some ''[object Object]'' else None)"

text \<open>
  The number that an operand of \<open>*\<close>, \<open>/\<close> or \<open>Math.round\<close> converts to; an array
  converts by way of its string, an object to \<open>NaN\<close>, or throws as above.
\<close>

definition to_number :: "world \<Rightarrow> js \<Rightarrow> number option" where
  "to_number w x =
     (case x of
        JUndefined \<Rightarrow> Some NaN
      | JNull \<Rightarrow> Some (Finite 0)
      | JBool b \<Rightarrow> Some (Finite (if b then 1 else 0))
      | JNum n \<Rightarrow> Some n
      | JStr s \<Rightarrow> Some (string_number w s)
      | JArr xs \<Rightarrow> map_option (string_number w) (to_string w (JArr xs))
      | JObj ms \<Rightarrow> (if map_of ms ''toString'' = None then Some NaN else None))"

text \<open>
  \<open>new Date(x)\<close>: the time value \<open>tv\<close> of the date, \<open>None\<close> for an invalid date
  (not a finite number, or beyond 8.64e15 ms from the epoch); a fraction of a millisecond
  is cut off towards zero.
\<close>

definition Date_new :: "number \<Rightarrow> int option" where
  "Date_new n =
     (case n of
        Finite x \<Rightarrow>
          if \<bar>x\<bar> > 8640000000000000 then None
          else Some (if 0 \<le> x then \<lfloor>x\<rfloor> else \<lceil>x\<rceil>)
      | _ \<Rightarrow> None)"

text \<open>\<open>date.getTime()\<close>.\<close>

definition Date_getTime :: "int option \<Rightarrow> number" where
  "Date_getTime tv = (case tv of None \<Rightarrow> NaN | Some t \<Rightarrow> Finite (of_int t))"

definition msPerDay :: int where
  "msPerDay = 86400000"

text \<open>\<open>date.getDay()\<close>: the weekday of the local time, \<open>None\<close> for \<open>NaN\<close>.\<close>

definition getDay :: "world \<Rightarrow> int option \<Rightarrow> nat option" where
  "getDay w tv = map_option (\<lambda>t. nat (((t + LocalTZA w t) div msPerDay + 4) mod 7)) tv"

definition days :: "string list" where
  "days = [''Sun'', ''Mon'', ''Tue'', ''Wed'', ''Thu'', ''Fri'', ''Sat'']"

text \<open>\<open>days[date.getDay()]\<close>.\<close>

definition weekday_name :: "world \<Rightarrow> int option \<Rightarrow> string option" where
  "weekday_name w tv = map_option (\<lambda>d. days ! d) (getDay w tv)"

text \<open>\<open>date.toISOString()\<close>: \<open>None\<close> where it throws a \<open>RangeError\<close>.\<close>

definition toISOString :: "world \<Rightarrow> int option \<Rightarrow> string option" where
  "toISOString w tv = map_option (iso_text w) tv"

text \<open>
  The \<open>k\<close>-th value of \<open>Math.random()\<close> in a call: any double from 0 up to, not
  including, 1. Those are the numbers \<open>m / 2^(53 + j)\<close> with \<open>m < 2^53\<close> and
  \<open>j < 1022\<close>; the engines draw with \<open>j = 0\<close>.
\<close>

definition Math_random :: "world \<Rightarrow> nat \<Rightarrow> real" where
  "Math_random w k = of_nat (entropy w k mod 2 ^ 53) / 2 ^ (53 + fineness w k mod 1022)"

text \<open>\<open>xs[n]\<close> for an array of strings and a number: the element, or \<open>undefined\<close>.\<close>

definition pick :: "string list \<Rightarrow> number \<Rightarrow> js" where
  "pick xs n =
     (case n of
        Finite x \<Rightarrow>
          if x = of_int \<lfloor>x\<rfloor> \<and> 0 \<le> x \<and> nat \<lfloor>x\<rfloor> < length xs then JStr (xs ! nat \<lfloor>x\<rfloor>)
          else JUndefined
      | _ \<Rightarrow> JUndefined)"

section \<open>The four fetchers\<close>

text \<open>
  Each fetcher is \<open>try { data = await fetchWithCache(...); return view } catch { return
  fallback }\<close>. The body of the \<open>try\<close> after the fetch is a function from the payload
  to the view model, or \<open>None\<close> where the runtime throws (a \<open>TypeError\<close> on a member
  of \<open>undefined\<close> or \<open>null\<close> or on a call of what is no function, a \<open>RangeError\<close> on an
  invalid date). A fetcher returns what it returns or throws, and the cache as it leaves
  it.
\<close>

definition currentView :: "world \<Rightarrow> js \<Rightarrow> WeatherData option" where
  "currentView w body = do {
     nameV \<leftarrow> read_member body ''name'';
     sysV \<leftarrow> read_member body ''sys'';
     countryV \<leftarrow> read_member sysV ''country'';
     mainV \<leftarrow> read_member body ''main'';
     tempV \<leftarrow> read_member mainV ''temp'';
     weatherV \<leftarrow> read_member body ''weather'';
     weather0 \<leftarrow> read_member weatherV ''0'';
     descriptionV \<leftarrow> read_member weather0 ''description'';
     humidityV \<leftarrow> read_member mainV ''humidity'';
     windV \<leftarrow> read_member body ''wind'';
     speedV \<leftarrow> read_member windV ''speed'';
     visibilityV \<leftarrow> read_member body ''visibility'';
     feelsV \<leftarrow> read_member mainV ''feels_like'';
     iconV \<leftarrow> read_member weather0 ''icon'';
     pressureV \<leftarrow> read_member mainV ''pressure'';
     coordV \<leftarrow> read_member body ''coord'';
     latV \<leftarrow> read_member coordV ''lat'';
     lonV \<leftarrow> read_member coordV ''lon'';
     nameS \<leftarrow> to_string w nameV;
     countryS \<leftarrow> to_string w countryV;
     tempN \<leftarrow> to_number w tempV;
     speedN \<leftarrow> to_number w speedV;
     visibilityN \<leftarrow> to_number w visibilityV;
     feelsN \<leftarrow> to_number w feelsV;
     Some \<lparr>WeatherData.location = nameS @ '', '' @ countryS,
           WeatherData.temperature = Math_round tempN,
           WeatherData.condition = descriptionV,
           WeatherData.humidity = humidityV,
           WeatherData.windSpeed = Math_round (js_times speedN (fl 3.6)),
           WeatherData.visibility = js_over visibilityN (Finite 1000),
           WeatherData.feelsLike = Math_round feelsN,
           WeatherData.icon = iconV,
           WeatherData.pressure = pressureV,
           WeatherData.uvIndex = JUndefined,
           WeatherData.coordinates = \<lparr>coordinates.lat = latV, coordinates.lon = lonV\<rparr>\<rparr>
   }"

definition currentFallback :: "real \<Rightarrow> real \<Rightarrow> WeatherData" where
  "currentFallback latitude longitude =
     \<lparr>WeatherData.location = ''Unknown Location'',
      WeatherData.temperature = Finite 20,
      WeatherData.condition = JStr ''Unknown'',
      WeatherData.humidity = JNum (Finite 50),
      WeatherData.windSpeed = Finite 10,
      WeatherData.visibility = Finite 10,
      WeatherData.feelsLike = Finite 20,
      WeatherData.icon = JStr ''01d'',
      WeatherData.pressure = JNum (Finite 1013),
      WeatherData.uvIndex = JUndefined,
      WeatherData.coordinates =
        \<lparr>coordinates.lat = JNum (Finite latitude), coordinates.lon = JNum (Finite longitude)\<rparr>\<rparr>"

definition getCurrentWeather ::
  "world \<Rightarrow> js cache \<Rightarrow> real \<Rightarrow> real \<Rightarrow> (error + WeatherData) \<times> js cache" where
  "getCurrentWeather w cache latitude longitude =
     (case fetchWithCache (runtime_of w) cache ''weather''
             [(''lat'', PNum latitude), (''lon'', PNum longitude), (''type'', PStr ''current'')] of
        (Inl err, cache') \<Rightarrow> (Inr (currentFallback latitude longitude), cache')
      | (Inr body, cache') \<Rightarrow>
          (case currentView w body of
             None \<Rightarrow> (Inr (currentFallback latitude longitude), cache')
           | Some view \<Rightarrow> (Inr view, cache')))"

definition hourlyEntry :: "world \<Rightarrow> js \<Rightarrow> HourlyForecast option" where
  "hourlyEntry w item = do {
     dtV \<leftarrow> read_member item ''dt'';
     mainV \<leftarrow> read_member item ''main'';
     tempV \<leftarrow> read_member mainV ''temp'';
     weatherV \<leftarrow> read_member item ''weather'';
     weather0 \<leftarrow> read_member weatherV ''0'';
     descriptionV \<leftarrow> read_member weather0 ''description'';
     humidityV \<leftarrow> read_member mainV ''humidity'';
     popV \<leftarrow> read_member item ''pop'';
     windV \<leftarrow> read_member item ''wind'';
     speedV \<leftarrow> read_member windV ''speed'';
     iconV \<leftarrow> read_member weather0 ''icon'';
     dtN \<leftarrow> to_number w dtV;
     tempN \<leftarrow> to_number w tempV;
     popN \<leftarrow> to_number w popV;
     speedN \<leftarrow> to_number w speedV;
     Some \<lparr>HourlyForecast.time = locale_time w (Date_new (js_times dtN (Finite 1000))),
           HourlyForecast.temperature = Math_round tempN,
           HourlyForecast.condition = descriptionV,
           HourlyForecast.humidity = humidityV,
           HourlyForecast.precipitation = Math_round (js_times popN (Finite 100)),
           HourlyForecast.windSpeed = Math_round (js_times speedN (fl 3.6)),
           HourlyForecast.icon = iconV\<rparr>
   }"

definition hourlyView :: "world \<Rightarrow> js \<Rightarrow> HourlyForecast list option" where
  "hourlyView w body = do {
     listV \<leftarrow> read_member body ''list'';
     items \<leftarrow> elements listV;
     those (map (hourlyEntry w) (take 24 items))
   }"

definition conditions :: "string list" where
  "conditions = [''Clear'', ''Clouds'', ''Rain'']"

text \<open>The \<open>i\<close>-th entry of the hourly fallback draws five random numbers, in member order.\<close>

definition hourlyMock :: "world \<Rightarrow> nat \<Rightarrow> HourlyForecast" where
  "hourlyMock w i =
     \<lparr>HourlyForecast.time = (if i = 0 then ''Now'' else dec i @ '':00''),
      HourlyForecast.temperature =
        js_plus (Finite 18) (js_times (Finite (Math_random w (5 * i))) (Finite 12)),
      HourlyForecast.condition =
        pick conditions (Math_floor (js_times (Finite (Math_random w (5 * i + 1))) (Finite 3))),
      HourlyForecast.humidity =
        JNum (js_plus (Math_floor (js_times (Finite (Math_random w (5 * i + 2))) (Finite 40))) (Finite 40)),
      HourlyForecast.precipitation =
        Math_floor (js_times (Finite (Math_random w (5 * i + 3))) (Finite 100)),
      HourlyForecast.windSpeed =
        js_plus (Math_floor (js_times (Finite (Math_random w (5 * i + 4))) (Finite 20))) (Finite 5),
      HourlyForecast.icon = JStr ''01d''\<rparr>"

definition hourlyFallback :: "world \<Rightarrow> HourlyForecast list" where
  "hourlyFallback w = map (hourlyMock w) [0..<24]"

definition getHourlyForecast ::
  "world \<Rightarrow> js cache \<Rightarrow> real \<Rightarrow> real \<Rightarrow> (error + HourlyForecast list) \<times> js cache" where
  "getHourlyForecast w cache latitude longitude =
     (case fetchWithCache (runtime_of w) cache ''weather''
             [(''lat'', PNum latitude), (''lon'', PNum longitude), (''type'', PStr ''forecast'')] of
        (Inl err, cache') \<Rightarrow> (Inr (hourlyFallback w), cache')
      | (Inr body, cache') \<Rightarrow>
          (case hourlyView w body of
             None \<Rightarrow> (Inr (hourlyFallback w), cache')
           | Some view \<Rightarrow> (Inr view, cache')))"

text \<open>The date of a raw daily entry: \<open>new Date(item.dt * 1000)\<close>.\<close>

definition entry_date :: "world \<Rightarrow> js \<Rightarrow> int option" where
  "entry_date w item =
     (case to_number w (leaf item [''dt'']) of
        None \<Rightarrow> None
      | Some dtN \<Rightarrow> Date_new (js_times dtN (Finite 1000)))"

definition dailyEntry :: "world \<Rightarrow> nat \<times> js \<Rightarrow> DailyForecast option" where
  "dailyEntry w p = do {
     let index = fst p;
     let item = snd p;
     dtV \<leftarrow> read_member item ''dt'';
     dtN \<leftarrow> to_number w dtV;
     let tv = Date_new (js_times dtN (Finite 1000));
     tempV \<leftarrow> read_member item ''temp'';
     maxV \<leftarrow> read_member tempV ''max'';
     minV \<leftarrow> read_member tempV ''min'';
     weatherV \<leftarrow> read_member item ''weather'';
     weather0 \<leftarrow> read_member weatherV ''0'';
     descriptionV \<leftarrow> read_member weather0 ''description'';
     popV \<leftarrow> read_member item ''pop'';
     humidityV \<leftarrow> read_member item ''humidity'';
     speedV \<leftarrow> read_member item ''wind_speed'';
     iconV \<leftarrow> read_member weather0 ''icon'';
     uviV \<leftarrow> read_member item ''uvi'';
     maxN \<leftarrow> to_number w maxV;
     minN \<leftarrow> to_number w minV;
     popN \<leftarrow> to_number w popV;
     speedN \<leftarrow> to_number w speedV;
     Some \<lparr>DailyForecast.date = locale_date w tv,
           DailyForecast.day = (if index = 0 then Some ''Today'' else weekday_name w tv),
           DailyForecast.highTemp = Math_round maxN,
           DailyForecast.lowTemp = Math_round minN,
           DailyForecast.condition = descriptionV,
           DailyForecast.precipitation = Math_round (js_times popN (Finite 100)),
           DailyForecast.humidity = humidityV,
           DailyForecast.windSpeed = Math_round (js_times speedN (fl 3.6)),
           DailyForecast.icon = iconV,
           DailyForecast.uvIndex = uviV\<rparr>
   }"

definition dailyView :: "world \<Rightarrow> js \<Rightarrow> DailyForecast list option" where
  "dailyView w body = do {
     dailyV \<leftarrow> read_member body ''daily'';
     items \<leftarrow> elements dailyV;
     those (map (dailyEntry w) (List.enumerate 0 (take 7 items)))
   }"

text \<open>
  The date of the \<open>i\<close>-th entry of the daily fallback:
  \<open>new Date(today.getTime() + i * 24 * 60 * 60 * 1000)\<close> with \<open>today = new Date()\<close>.
\<close>

definition mock_date :: "world \<Rightarrow> nat \<Rightarrow> int option" where
  "mock_date w i =
     (let today = Date_new (Finite (of_int (clock_at w i)))
      in Date_new (js_plus (Date_getTime today) (Finite (of_nat i * 24 * 60 * 60 * 1000))))"

text \<open>The \<open>i\<close>-th entry of the daily fallback reads the clock and draws six random numbers.\<close>

definition dailyMock :: "world \<Rightarrow> nat \<Rightarrow> DailyForecast" where
  "dailyMock w i =
     (let tv = mock_date w i
      in \<lparr>DailyForecast.date = locale_date w tv,
          DailyForecast.day = (if i = 0 then Some ''Today'' else weekday_name w tv),
          DailyForecast.highTemp =
            js_plus (Finite 22) (js_times (Finite (Math_random w (6 * i))) (Finite 8)),
          DailyForecast.lowTemp =
            js_plus (Finite 12) (js_times (Finite (Math_random w (6 * i + 1))) (Finite 8)),
          DailyForecast.condition =
            pick conditions (Math_floor (js_times (Finite (Math_random w (6 * i + 2))) (Finite 3))),
          DailyForecast.precipitation =
            Math_floor (js_times (Finite (Math_random w (6 * i + 3))) (Finite 100)),
          DailyForecast.humidity =
            JNum (js_plus (Math_floor (js_times (Finite (Math_random w (6 * i + 4))) (Finite 30)))
                    (Finite 50)),
          DailyForecast.windSpeed =
            js_plus (Math_floor (js_times (Finite (Math_random w (6 * i + 5))) (Finite 15))) (Finite 5),
          DailyForecast.icon = JStr ''01d'',
          DailyForecast.uvIndex = JUndefined\<rparr>)"

definition dailyFallback :: "world \<Rightarrow> DailyForecast list" where
  "dailyFallback w = map (dailyMock w) [0..<7]"

definition getDailyForecast ::
  "world \<Rightarrow> js cache \<Rightarrow> real \<Rightarrow> real \<Rightarrow> (error + DailyForecast list) \<times> js cache" where
  "getDailyForecast w cache latitude longitude =
     (case fetchWithCache (runtime_of w) cache ''weather''
             [(''lat'', PNum latitude), (''lon'', PNum longitude), (''type'', PStr ''onecall'')] of
        (Inl err, cache') \<Rightarrow> (Inr (dailyFallback w), cache')
      | (Inr body, cache') \<Rightarrow>
          (case dailyView w body of
             None \<Rightarrow> (Inr (dailyFallback w), cache')
           | Some view \<Rightarrow> (Inr view, cache')))"

text \<open>The classification of an alert, from its lower-cased event text.\<close>

definition alertTier :: "string \<Rightarrow> alert_type \<times> real" where
  "alertTier ev =
     (if str_includes ev ''severe'' \<or> str_includes ev ''extreme'' \<or> str_includes ev ''warning''
      then (Severe, 8)
      else if str_includes ev ''watch'' \<or> str_includes ev ''advisory''
      then (Moderate, 6)
      else (Minor, 3))"

definition alertCategory :: "string \<Rightarrow> alert_category" where
  "alertCategory ev =
     (if str_includes ev ''storm'' \<or> str_includes ev ''thunder'' then Storm
      else if str_includes ev ''rain'' \<or> str_includes ev ''flood'' then Rain
      else if str_includes ev ''wind'' then Wind
      else if str_includes ev ''snow'' \<or> str_includes ev ''winter'' then Snow
      else if str_includes ev ''temperature'' \<or> str_includes ev ''heat'' \<or> str_includes ev ''cold''
      then Temperature
      else Other)"

definition alertEntry :: "world \<Rightarrow> nat \<times> js \<Rightarrow> WeatherAlert option" where
  "alertEntry w p = do {
     let index = fst p;
     let alert = snd p;
     eventV \<leftarrow> read_member alert ''event'';
     eventText \<leftarrow> string_of eventV;
     let ev = toLowerCase eventText;
     descriptionV \<leftarrow> read_member alert ''description'';
     startV \<leftarrow> read_member alert ''start'';
     startN \<leftarrow> to_number w startV;
     startText \<leftarrow> toISOString w (Date_new (js_times startN (Finite 1000)));
     endV \<leftarrow> read_member alert ''end'';
     endN \<leftarrow> to_number w endV;
     endText \<leftarrow> toISOString w (Date_new (js_times endN (Finite 1000)));
     Some \<lparr>WeatherAlert.alert_id = ''alert-'' @ dec index,
           WeatherAlert.tier = fst (alertTier ev),
           WeatherAlert.category = alertCategory ev,
           WeatherAlert.title = eventText,
           WeatherAlert.description = descriptionV,
           WeatherAlert.location = ''Current Area'',
           WeatherAlert.severity = snd (alertTier ev),
           WeatherAlert.startTime = startText,
           WeatherAlert.endTime = endText,
           WeatherAlert.isActive = True\<rparr>
   }"

text \<open>
  A body whose \<open>alerts\<close> is falsy gives the empty list by the early return; \<open>null\<close>
  for a body throws at the test, and an \<open>alerts\<close> that is no array throws at \<open>map\<close>.
\<close>

definition alertsView :: "world \<Rightarrow> js \<Rightarrow> WeatherAlert list option" where
  "alertsView w body = do {
     alertsV \<leftarrow> read_member body ''alerts'';
     if \<not> truthy alertsV then Some []
     else do {
       items \<leftarrow> elements alertsV;
       those (map (alertEntry w) (List.enumerate 0 items))
     }
   }"

definition getWeatherAlerts ::
  "world \<Rightarrow> js cache \<Rightarrow> real \<Rightarrow> real \<Rightarrow> (error + WeatherAlert list) \<times> js cache" where
  "getWeatherAlerts w cache latitude longitude =
     (case fetchWithCache (runtime_of w) cache ''weather''
             [(''lat'', PNum latitude), (''lon'', PNum longitude), (''type'', PStr ''onecall'')] of
        (Inl err, cache') \<Rightarrow> (Inr [], cache')
      | (Inr body, cache') \<Rightarrow>
          (case alertsView w body of
             None \<Rightarrow> (Inr [], cache')
           | Some view \<Rightarrow> (Inr view, cache')))"

text \<open>What \<open>fetchWithCache('weather', {lat, lon, type})\<close> returns or throws in a fetcher.\<close>

definition fetched :: "world \<Rightarrow> js cache \<Rightarrow> real \<Rightarrow> real \<Rightarrow> string \<Rightarrow> error + js" where
  "fetched w cache latitude longitude ty =
     fst (fetchWithCache (runtime_of w) cache ''weather''
            [(''lat'', PNum latitude), (''lon'', PNum longitude), (''type'', PStr ty)])"

text \<open>
  The payload holds, where a fetcher copies a member, a value of the type that the view
  model declares (and, for a daily entry past the first, a timestamp that is a date).
\<close>

definition conforms_current :: "js \<Rightarrow> bool" where
  "conforms_current body =
     (is_string (leaf body [''weather'', ''0'', ''description''])
      \<and> is_number (leaf body [''main'', ''humidity''])
      \<and> is_string (leaf body [''weather'', ''0'', ''icon''])
      \<and> is_number (leaf body [''main'', ''pressure''])
      \<and> is_number (leaf body [''coord'', ''lat''])
      \<and> is_number (leaf body [''coord'', ''lon'']))"

definition conforms_hourly :: "js \<Rightarrow> bool" where
  "conforms_hourly item =
     (is_string (leaf item [''weather'', ''0'', ''description''])
      \<and> is_number (leaf item [''main'', ''humidity''])
      \<and> is_string (leaf item [''weather'', ''0'', ''icon'']))"

definition conforms_daily :: "world \<Rightarrow> nat \<times> js \<Rightarrow> bool" where
  "conforms_daily w p =
     ((fst p = 0 \<or> entry_date w (snd p) \<noteq> None)
      \<and> is_string (leaf (snd p) [''weather'', ''0'', ''description''])
      \<and> is_number (leaf (snd p) [''humidity''])
      \<and> is_string (leaf (snd p) [''weather'', ''0'', ''icon''])
      \<and> is_optional_number (leaf (snd p) [''uvi'']))"

definition conforms_alert :: "nat \<times> js \<Rightarrow> bool" where
  "conforms_alert p = is_string (leaf (snd p) [''description''])"

text \<open>The entries of the list member \<open>k\<close> of a body; none where it is no array.\<close>

definition raw_entries :: "js \<Rightarrow> string \<Rightarrow> js list" where
  "raw_entries body k = (case leaf body [k] of JArr xs \<Rightarrow> xs | _ \<Rightarrow> [])"

section \<open>Sample surroundings\<close>

text \<open>
  A world whose network refuses every request, and the same world with a network that
  answers every request with a given body. Local time is UTC; the number printer is
  right on the non-negative integers, the conversion of strings on the strings that
  spell no number.
\<close>

definition offline :: world where
  "offline =
     \<lparr>number_text = (\<lambda>x. dec (nat \<lfloor>x\<rfloor>)),
      string_number = (\<lambda>s. if list_all is_white_space s then Finite 0 else NaN),
      query_string = (\<lambda>ps. []),
      network = (\<lambda>url. NotOk ''Service Unavailable''),
      clock_check = 0,
      clock_store = 0,
      entropy = (\<lambda>k. 0),
      fineness = (\<lambda>k. 0),
      clock_at = (\<lambda>i. 0),
      LocalTZA = (\<lambda>t. 0),
      locale_time = (\<lambda>tv. []),
      locale_date = (\<lambda>tv. []),
      iso_text = (\<lambda>t. [])\<rparr>"

definition serving :: "js \<Rightarrow> world" where
  "serving body = offline\<lparr>network := (\<lambda>url. Ok body)\<rparr>"

definition sample_weather :: js where
  "sample_weather = JArr [JObj [(''description'', JStr ''light rain''), (''icon'', JStr ''10d'')]]"

definition sample_day :: "real \<Rightarrow> js" where
  "sample_day t =
     JObj [(''dt'', JNum (Finite t)),
           (''temp'', JObj [(''min'', JNum (Finite 11.5)), (''max'', JNum (Finite 19.5))]),
           (''humidity'', JNum (Finite 60)),
           (''wind_speed'', JNum (Finite 10)),
           (''weather'', sample_weather),
           (''pop'', JNum (Finite 0.25)),
           (''uvi'', JNum (Finite 4))]"

definition sample_current_with :: "js \<Rightarrow> js" where
  "sample_current_with speedV =
     JObj [(''coord'', JObj [(''lon'', JNum (Finite 2)), (''lat'', JNum (Finite 1))]),
           (''weather'', sample_weather),
           (''main'', JObj [(''temp'', JNum (Finite 21.5)), (''feels_like'', JNum (Finite 20.25)),
                            (''pressure'', JNum (Finite 1012)), (''humidity'', JNum (Finite 40))]),
           (''visibility'', JNum (Finite 8000)),
           (''wind'', JObj [(''speed'', speedV)]),
           (''sys'', JObj [(''country'', JStr ''US'')]),
           (''name'', JStr ''Springfield'')]"

definition sample_current :: js where
  "sample_current = sample_current_with (JNum (Finite 10))"

text \<open>The view of \<^const>\<open>sample_current_with\<close>, up to its wind speed.\<close>

definition sample_current_view :: "number \<Rightarrow> WeatherData" where
  "sample_current_view kmh =
     \<lparr>WeatherData.location = ''Springfield, US'',
      WeatherData.temperature = Finite 22,
      WeatherData.condition = JStr ''light rain'',
      WeatherData.humidity = JNum (Finite 40),
      WeatherData.windSpeed = kmh,
      WeatherData.visibility = Finite 8,
      WeatherData.feelsLike = Finite 20,
      WeatherData.icon = JStr ''10d'',
      WeatherData.pressure = JNum (Finite 1012),
      WeatherData.uvIndex = JUndefined,
      WeatherData.coordinates =
        \<lparr>coordinates.lat = JNum (Finite 1), coordinates.lon = JNum (Finite 2)\<rparr>\<rparr>"

definition sample_forecast :: js where
  "sample_forecast =
     JObj [(''list'',
            JArr [JObj [(''dt'', JNum (Finite 3600)),
                        (''main'', JObj [(''temp'', JNum (Finite 21.5)),
                                         (''humidity'', JNum (Finite 40))]),
                        (''weather'', sample_weather),
                        (''wind'', JObj [(''speed'', JNum (Finite 10))]),
                        (''pop'', JNum (Finite 0.25))]])]"

definition sample_hourly_view :: "HourlyForecast list" where
  "sample_hourly_view =
     [\<lparr>HourlyForecast.time = [],
       HourlyForecast.temperature = Finite 22,
       HourlyForecast.condition = JStr ''light rain'',
       HourlyForecast.humidity = JNum (Finite 40),
       HourlyForecast.precipitation = Finite 25,
       HourlyForecast.windSpeed = Finite 36,
       HourlyForecast.icon = JStr ''10d''\<rparr>]"

text \<open>The double that the numeral \<open>0.9722222222222222\<close> denotes.\<close>

definition near_half_speed :: real where
  "near_half_speed = 8756999275442631 / 2 ^ 53"

text \<open>A body with its objects in place and their members missing.\<close>

definition hollow_body :: js where
  "hollow_body =
     JObj [(''name'', JStr ''X''), (''sys'', JObj []), (''main'', JObj []),
           (''weather'', JArr [JObj []]), (''wind'', JObj []), (''coord'', JObj [])]"

definition hollow_view :: WeatherData where
  "hollow_view =
     \<lparr>WeatherData.location = ''X, undefined'',
      WeatherData.temperature = NaN,
      WeatherData.condition = JUndefined,
      WeatherData.humidity = JUndefined,
      WeatherData.windSpeed = NaN,
      WeatherData.visibility = NaN,
      WeatherData.feelsLike = NaN,
      WeatherData.icon = JUndefined,
      WeatherData.pressure = JUndefined,
      WeatherData.uvIndex = JUndefined,
      WeatherData.coordinates = \<lparr>coordinates.lat = JUndefined, coordinates.lon = JUndefined\<rparr>\<rparr>"

definition sample_onecall :: js where
  "sample_onecall = JObj [(''daily'', JArr [sample_day 0, sample_day 172800])]"

text \<open>The view of \<^const>\<open>sample_day\<close> in the sample world, up to its day label.\<close>

definition sample_day_view :: "string option \<Rightarrow> DailyForecast" where
  "sample_day_view label =
     \<lparr>DailyForecast.date = [],
      DailyForecast.day = label,
      DailyForecast.highTemp = Finite 20,
      DailyForecast.lowTemp = Finite 12,
      DailyForecast.condition = JStr ''light rain'',
      DailyForecast.precipitation = Finite 25,
      DailyForecast.humidity = JNum (Finite 60),
      DailyForecast.windSpeed = Finite 36,
      DailyForecast.icon = JStr ''10d'',
      DailyForecast.uvIndex = JNum (Finite 4)\<rparr>"



text \<open>
  A runtime of the cached fetch whose network answers every request with one value, with
  given readings of the clock at the test of the entry and at the write.
\<close>

definition sample_runtime :: "int \<Rightarrow> int \<Rightarrow> nat \<Rightarrow> (string, nat) runtime" where
  "sample_runtime check store reply =
     \<lparr>json_value = json_of_string, url_params = (\<lambda>ps. []), fetch = (\<lambda>u. Ok reply),
      now_check = check, now_store = store\<rparr>"
section \<open>The classification rules as the specification words them\<close>

text \<open>
  An ordered list of rules, each a list of keywords and a result; the first rule with a
  keyword that occurs in the text wins, and the default is the result when none does.
\<close>

fun first_match :: "(string list \<times> 'a) list \<Rightarrow> 'a \<Rightarrow> string \<Rightarrow> 'a" where
  "first_match [] dflt txt = dflt"
| "first_match (rule # rules) dflt txt =
     (if list_ex (str_includes txt) (fst rule) then snd rule else first_match rules dflt txt)"

definition tier_rules :: "(string list \<times> alert_type) list" where
  "tier_rules =
     [([''severe'', ''extreme'', ''warning''], Severe),
      ([''watch'', ''advisory''], Moderate)]"

definition category_rules :: "(string list \<times> alert_category) list" where
  "category_rules =
     [([''storm'', ''thunder''], Storm),
      ([''rain'', ''flood''], Rain),
      ([''wind''], Wind),
      ([''snow'', ''winter''], Snow),
      ([''temperature'', ''heat'', ''cold''], Temperature)]"

definition tier_score :: "alert_type \<Rightarrow> real" where
  "tier_score t = (case t of Severe \<Rightarrow> 8 | Moderate \<Rightarrow> 6 | Minor \<Rightarrow> 3)"

definition sample_alert :: "string \<Rightarrow> js" where
  "sample_alert ev =
     JObj [(''sender_name'', JStr ''NWS''), (''event'', JStr ev), (''start'', JNum (Finite 0)),
           (''end'', JNum (Finite 3600)), (''description'', JStr ''Take shelter'')]"

definition sample_alerts :: js where
  "sample_alerts =
     JObj [(''daily'', JArr []),
           (''alerts'',
            JArr [sample_alert ''Severe Thunderstorm Warning'', sample_alert ''Heavy Rain Advisory'',
                  sample_alert ''Wind Advisory''])]"

text \<open>The view of \<^const>\<open>sample_alert\<close> in the sample world, up to its derived members.\<close>

definition sample_alert_view ::
  "string \<Rightarrow> string \<Rightarrow> alert_type \<Rightarrow> alert_category \<Rightarrow> real \<Rightarrow> WeatherAlert" where
  "sample_alert_view ident ev t c s =
     \<lparr>WeatherAlert.alert_id = ident,
      WeatherAlert.tier = t,
      WeatherAlert.category = c,
      WeatherAlert.title = ev,
      WeatherAlert.description = JStr ''Take shelter'',
      WeatherAlert.location = ''Current Area'',
      WeatherAlert.severity = s,
      WeatherAlert.startTime = [],
      WeatherAlert.endTime = [],
      WeatherAlert.isActive = True\<rparr>"

definition sample_alert_views :: "WeatherAlert list" where
  "sample_alert_views =
     [sample_alert_view ''alert-0'' ''Severe Thunderstorm Warning'' Severe Storm 8,
      sample_alert_view ''alert-1'' ''Heavy Rain Advisory'' Moderate Rain 6,
      sample_alert_view ''alert-2'' ''Wind Advisory'' Moderate Wind 6]"

section \<open>The proxy route\<close>


datatype 'j body = Raw 'j | ErrorObject string














section \<open>Search by city\<close>

text \<open>The coordinates that a search returns.\<close>

record coord =
  lat :: real
  lon :: real

text \<open>
  An entry of the geocoder's answer, and the surroundings of the geocoding request: the
  encoder of the query, the API key of the environment, and the geocoder, which answers
  with \<open>null\<close> (\<open>None\<close>) or a list of entries.
\<close>

record geo_entry =
  lat :: real
  lon :: real
  name :: string
  country :: string

record geo_world =
  encodeURIComponent :: "string \<Rightarrow> string"
  OPENWEATHER_API_KEY :: "string option"
  geocoder :: "string \<Rightarrow> geo_entry list option response"

definition message :: "error \<Rightarrow> string" where
  "message e = (case e of Error m \<Rightarrow> m)"

definition geocodingUrl :: "geo_world \<Rightarrow> string \<Rightarrow> string" where
  "geocodingUrl gw cityName =
     ''https://api.openweathermap.org/geo/1.0/direct?q='' @ encodeURIComponent gw cityName
       @ ''&limit=1&appid=''
       @ (case OPENWEATHER_API_KEY gw of None \<Rightarrow> ''undefined'' | Some k \<Rightarrow> k)"

text \<open>The body of the \<open>try\<close> of \<open>getWeatherByCity\<close>; the result is the pair of the members
  \<open>weather\<close> and \<open>coordinates\<close>.\<close>

definition cityLookup ::
  "geo_world \<Rightarrow> world \<Rightarrow> js cache \<Rightarrow> string \<Rightarrow> (error + WeatherData \<times> coord) \<times> js cache" where
  \<open>cityLookup gw w cache cityName =
     (case geocoder gw (geocodingUrl gw cityName) of
        Rejected m \<Rightarrow> (Inl (Error m), cache)
      | NotOk statusText \<Rightarrow> (Inl (Error (''Failed to geocode city: '' @ statusText)), cache)
      | BadJson m \<Rightarrow> (Inl (Error m), cache)
      | Ok geocodingData \<Rightarrow>
          (case geocodingData of
             None \<Rightarrow> (Inl (Error (''City "'' @ cityName @ ''" not found'')), cache)
           | Some [] \<Rightarrow> (Inl (Error (''City "'' @ cityName @ ''" not found'')), cache)
           | Some (g # _) \<Rightarrow>
               (case getCurrentWeather w cache (geo_entry.lat g) (geo_entry.lon g) of
                  (Inl err, cache') \<Rightarrow> (Inl err, cache')
                | (Inr current, cache') \<Rightarrow>
                    (Inr (current\<lparr>WeatherData.location := geo_entry.name g @ '', '' @ geo_entry.country g\<rparr>,
                          \<lparr>coord.lat = geo_entry.lat g, coord.lon = geo_entry.lon g\<rparr>),
                     cache'))))\<close>

definition getWeatherByCity ::
  "geo_world \<Rightarrow> world \<Rightarrow> js cache \<Rightarrow> string \<Rightarrow> (error + WeatherData \<times> coord) \<times> js cache" where
  "getWeatherByCity gw w cache cityName =
     (case cityLookup gw w cache cityName of
        (Inl err, cache') \<Rightarrow>
          (Inl (Error (''Failed to get weather for '' @ cityName @ '': '' @ message err)), cache')
      | (Inr result, cache') \<Rightarrow> (Inr result, cache'))"


section \<open>The page\<close>

text \<open>
  The state of the dashboard that \<open>handleSearch\<close> reads or writes, the cache of the
  service, and the pending timeouts, each with its delay in milliseconds and its callback.
\<close>

record user_location =
  lat :: real
  lon :: real
  city :: string

datatype callback = ClearSearchError

record page =
  weather :: "WeatherData option"
  hourlyForecast :: "HourlyForecast list"
  dailyForecast :: "DailyForecast list"
  alerts :: "WeatherAlert list"
  loading :: bool
  searchQuery :: string
  userLocation :: "user_location option"
  searchError :: "string option"
  timeouts :: "(nat \<times> callback) list"
  service_cache :: "js cache"

text \<open>A timeout fires: its callback runs.\<close>

definition fire :: "callback \<Rightarrow> page \<Rightarrow> page" where
  "fire cb st = (case cb of ClearSearchError \<Rightarrow> st\<lparr>searchError := None\<rparr>)"

text \<open>The surroundings of one search: those of the geocoding and of each of the four calls.\<close>

record search_worlds =
  geo :: geo_world
  for_current :: world
  for_hourly :: world
  for_daily :: world
  for_alerts :: world

text \<open>
  The \<open>catch\<close> and \<open>finally\<close> of \<open>handleSearch\<close>: the message is shown, its removal is
  scheduled 3000 ms ahead, the loading flag is cleared.
\<close>

definition searchFailed :: "error \<Rightarrow> page \<Rightarrow> page" where
  "searchFailed err st =
     st\<lparr>searchError := Some (message err),
        timeouts := timeouts st @ [(3000, ClearSearchError)],
        loading := False\<rparr>"

text \<open>
  The three calls of \<open>Promise.all\<close> look the cache up one after the other before any
  answer arrives; the entries that the answers write are put into the cache in the order
  of the calls.
\<close>

definition merge_writes :: "'d cache \<Rightarrow> 'd cache \<Rightarrow> 'd cache \<Rightarrow> 'd cache" where
  "merge_writes base acc written = (\<lambda>k. if written k = base k then acc k else written k)"

definition handleSearch :: "search_worlds \<Rightarrow> page \<Rightarrow> page" where
  "handleSearch ws st =
     (if trim_is_empty (searchQuery st) then st
      else
        (let st1 = st\<lparr>loading := True, searchError := None\<rparr>
         in case getWeatherByCity (geo ws) (for_current ws) (service_cache st1) (searchQuery st) of
              (Inl err, cache1) \<Rightarrow> searchFailed err (st1\<lparr>service_cache := cache1\<rparr>)
            | (Inr result, cache1) \<Rightarrow>
                (let la = coord.lat (snd result); lo = coord.lon (snd result);
                     st2 = st1\<lparr>service_cache := cache1,
                              weather := Some (fst result),
                              userLocation :=
                                Some \<lparr>user_location.lat = la, user_location.lon = lo,
                                      city = WeatherData.location (fst result)\<rparr>\<rparr>;
                     h = getHourlyForecast (for_hourly ws) cache1 la lo;
                     d = getDailyForecast (for_daily ws) cache1 la lo;
                     a = getWeatherAlerts (for_alerts ws) cache1 la lo;
                     st3 = st2\<lparr>service_cache :=
                                merge_writes cache1 (merge_writes cache1 (snd h) (snd d)) (snd a)\<rparr>
                 in case fst h of
                      Inl err \<Rightarrow> searchFailed err st3
                    | Inr hourlyData \<Rightarrow>
                        (case fst d of
                           Inl err \<Rightarrow> searchFailed err st3
                         | Inr dailyData \<Rightarrow>
                             (case fst a of
                                Inl err \<Rightarrow> searchFailed err st3
                              | Inr weatherAlerts \<Rightarrow>
                                  st3\<lparr>hourlyForecast := hourlyData,
                                      dailyForecast := dailyData,
                                      alerts := weatherAlerts,
                                      searchQuery := [],
                                      loading := False\<rparr>)))))"

definition nowhere :: geo_world where
  "nowhere =
     \<lparr>encodeURIComponent = (\<lambda>s. s),
      OPENWEATHER_API_KEY = Some ''0123abcd'',
      geocoder = (\<lambda>url. Ok (Some []))\<rparr>"

definition sample_page :: page where
  "sample_page =
     \<lparr>weather = Some (currentFallback 1 2),
      hourlyForecast = hourlyFallback offline,
      dailyForecast = dailyFallback offline,
      alerts = [],
      loading = False,
      searchQuery = ''Atlantis'',
      userLocation = None,
      searchError = None,
      timeouts = [],
      service_cache = Map.empty\<rparr>"

definition sample_search :: search_worlds where
  "sample_search =
     \<lparr>geo = nowhere, for_current = offline, for_hourly = offline, for_daily = offline,
      for_alerts = offline\<rparr>"


section \<open>Sequences of calls of the service\<close>

text \<open>
  A call of a method of the service, with the surroundings it runs in; a sequence of calls
  runs on the cache one call after the other, starting from the empty cache of
  \<open>new Map()\<close>.
\<close>

datatype op =
  OpCurrent world real real
| OpHourly world real real
| OpDaily world real real
| OpAlerts world real real
| OpCity geo_world world string
| OpClear

fun step :: "op \<Rightarrow> js cache \<Rightarrow> js cache" where
  "step (OpCurrent w la lo) c = snd (getCurrentWeather w c la lo)"
| "step (OpHourly w la lo) c = snd (getHourlyForecast w c la lo)"
| "step (OpDaily w la lo) c = snd (getDailyForecast w c la lo)"
| "step (OpAlerts w la lo) c = snd (getWeatherAlerts w c la lo)"
| "step (OpCity gw w q) c = snd (getWeatherByCity gw w c q)"
| "step OpClear c = clearCache c"

definition run :: "op list \<Rightarrow> js cache \<Rightarrow> js cache" where
  "run ops c = fold step ops c"

text \<open>The URL that a fetcher asks the network for.\<close>

definition weather_url :: "world \<Rightarrow> real \<Rightarrow> real \<Rightarrow> string \<Rightarrow> string" where
  "weather_url w la lo ty =
     api_url (runtime_of w) ''weather'' [(''lat'', PNum la), (''lon'', PNum lo), (''type'', PStr ty)]"

text \<open>
  What the network answers to the request of a call, should the call send it; a search
  by city sends one for the first entry of the geocoder's answer.
\<close>

fun answer :: "op \<Rightarrow> js response option" where
  "answer (OpCurrent w la lo) = Some (network w (weather_url w la lo ''current''))"
| "answer (OpHourly w la lo) = Some (network w (weather_url w la lo ''forecast''))"
| "answer (OpDaily w la lo) = Some (network w (weather_url w la lo ''onecall''))"
| "answer (OpAlerts w la lo) = Some (network w (weather_url w la lo ''onecall''))"
| "answer (OpCity gw w q) =
     (case geocoder gw (geocodingUrl gw q) of
        Ok (Some (g # _)) \<Rightarrow>
          Some (network w (weather_url w (geo_entry.lat g) (geo_entry.lon g) ''current''))
      | _ \<Rightarrow> None)"
| "answer OpClear = None"

text \<open>The payload is the parsed body of a successful response to a request of the calls.\<close>

definition answered :: "op list \<Rightarrow> js \<Rightarrow> bool" where
  "answered ops p = list_ex (\<lambda>call. answer call = Some (Ok p)) ops"


section \<open>Properties of the cache key\<close>

lemma str_includes_iff: "str_includes s t \<longleftrightarrow> (\<exists>xs ys. s = xs @ t @ ys)"
proof (induction s)
  case Nil
  then show ?case by auto
next
  case (Cons c s)
  have a: "take (length t) (c # s) = t \<longleftrightarrow> (\<exists>ys. c # s = t @ ys)"
    by (metis append_eq_conv_conj append_take_drop_id)
  have b: "(\<exists>xs ys. c # s = xs @ t @ ys) \<longleftrightarrow> (\<exists>ys. c # s = t @ ys) \<or> (\<exists>xs ys. s = xs @ t @ ys)"
    (is "?L \<longleftrightarrow> ?R")
  proof
    assume ?L
    then obtain xs ys where e: "c # s = xs @ t @ ys" by blast
    show ?R
    proof (cases xs)
      case Nil
      with e show ?thesis by auto
    next
      case (Cons x xs')
      with e have "s = xs' @ t @ ys" by simp
      then show ?thesis by blast
    qed
  next
    assume ?R
    then show ?L
    proof
      assume "\<exists>ys. c # s = t @ ys"
      then obtain ys where "c # s = [] @ t @ ys" by auto
      then show ?L by blast
    next
      assume "\<exists>xs ys. s = xs @ t @ ys"
      then obtain xs ys where "c # s = (c # xs) @ t @ ys" by auto
      then show ?L by blast
    qed
  qed
  show ?case using Cons.IH a b by simp
qed

lemma index_key_inj:
  "is_array_index k \<Longrightarrow> is_array_index k' \<Longrightarrow> parse_nat k = parse_nat k' \<Longrightarrow> k = k'"
  by (metis is_array_index_def)

lemma own_entries_cong:
  assumes d1: "distinct (map fst P1)" and d2: "distinct (map fst P2)"
    and s: "set P1 = set P2"
    and n: "named_entries P1 = named_entries P2"
  shows "own_entries P1 = own_entries P2"
proof -
  have "distinct P1" "distinct P2" using d1 d2 by (auto simp: distinct_map)
  then have m: "mset P1 = mset P2" using s by (simp add: set_eq_iff_mset_eq_distinct)
  have mi: "mset (index_entries P1) = mset (index_entries P2)"
    unfolding index_entries_def using m by simp
  have inj: "inj_on (\<lambda>p. parse_nat (fst p)) (set (index_entries P1))"
  proof (rule inj_onI)
    fix p q
    assume p: "p \<in> set (index_entries P1)" and q: "q \<in> set (index_entries P1)"
      and e: "parse_nat (fst p) = parse_nat (fst q)"
    from p q have "is_array_index (fst p)" "is_array_index (fst q)" "p \<in> set P1" "q \<in> set P1"
      by (auto simp: index_entries_def)
    with e have "fst p = fst q" by (auto dest: index_key_inj)
    with d1 \<open>p \<in> set P1\<close> \<open>q \<in> set P1\<close> show "p = q"
      by (metis eq_key_imp_eq_value prod.collapse)
  qed
  have "sort_key (\<lambda>p. parse_nat (fst p)) (index_entries P1)
        = sort_key (\<lambda>p. parse_nat (fst p)) (index_entries P2)"
    by (rule sort_key_eq_sort_key [OF mi inj])
  then show ?thesis by (simp add: own_entries_def n)
qed

text \<open>
  C1, as the code has it. The key is the endpoint, a dash and \<open>JSON.stringify\<close> of
  the parameters, and \<open>JSON.stringify\<close> follows the enumeration order of the object.
  Two parameter objects with the same key-value pairs get the same cache key provided
  their named (non-index) keys were created in the same relative order; the order of
  creation of the index keys does not matter.
\<close>

theorem getCacheKey_same_named_order:
  assumes "distinct (map fst P1)" and "distinct (map fst P2)"
    and "set P1 = set P2"
    and "named_entries P1 = named_entries P2"
  shows "getCacheKey ser endpoint P1 = getCacheKey ser endpoint P2"
  using own_entries_cong [OF assms] by (simp add: getCacheKey_def JSON_stringify_def)

theorem getCacheKey_same_named_order_witness:
  "distinct (map fst [(''1'', ''a''), (''0'', ''b''), (''lat'', ''c'')])
   \<and> distinct (map fst [(''lat'', ''c''), (''0'', ''b''), (''1'', ''a'')])
   \<and> set [(''1'', ''a''), (''0'', ''b''), (''lat'', ''c'')] = set [(''lat'', ''c''), (''0'', ''b''), (''1'', ''a'')]
   \<and> named_entries [(''1'', ''a''), (''0'', ''b''), (''lat'', ''c'')]
       = named_entries [(''lat'', ''c''), (''0'', ''b''), (''1'', ''a'')]
   \<and> getCacheKey json_of_string ''weather'' [(''1'', ''a''), (''0'', ''b''), (''lat'', ''c'')]
       = getCacheKey json_of_string ''weather'' [(''lat'', ''c''), (''0'', ''b''), (''1'', ''a'')]"
proof -
  have d1: "distinct (map fst [(''1'', ''a''), (''0'', ''b''), (''lat'', ''c'')])" by simp
  have d2: "distinct (map fst [(''lat'', ''c''), (''0'', ''b''), (''1'', ''a'')])" by simp
  have s: "set [(''1'', ''a''), (''0'', ''b''), (''lat'', ''c'')]
           = set [(''lat'', ''c''), (''0'', ''b''), (''1'', ''a'')]" by auto
  have n: "named_entries [(''1'', ''a''), (''0'', ''b''), (''lat'', ''c'')]
           = named_entries [(''lat'', ''c''), (''0'', ''b''), (''1'', ''a'')]"
    by (simp add: named_entries_def is_array_index_def is_digit_def parse_nat_def
        dec.simps digit_char_def char_of_eq_iff)
  show ?thesis
    using d1 d2 s n getCacheKey_same_named_order [OF d1 d2 s n, of json_of_string "''weather''"]
    by blast
qed

text \<open>
  C1, as the specification states it, fails: the objects \<open>{lat: "1", lon: "2"}\<close> and
  \<open>{lon: "2", lat: "1"}\<close> hold the same pairs and get different keys.
\<close>

theorem getCacheKey_order_counterexample:
  "set [(''lat'', ''1''), (''lon'', ''2'')] = set [(''lon'', ''2''), (''lat'', ''1'')]
   \<and> getCacheKey json_of_string ''weather'' [(''lat'', ''1''), (''lon'', ''2'')]
       \<noteq> getCacheKey json_of_string ''weather'' [(''lon'', ''2''), (''lat'', ''1'')]"
  by (auto simp add: getCacheKey_def JSON_stringify_def own_entries_def index_entries_def
      named_entries_def is_array_index_def is_digit_def List.map_filter_def property_text_def
      json_of_string_def quote_def escape_char_def)


section \<open>Expiry of cache entries\<close>

text \<open>
  C2. A call of \<open>fetchWithCache\<close> that finds no entry it can use and gets a
  successful response writes the entry: the payload, with the reading \<open>T\<close> of the
  clock at the write. A later call with the same endpoint and parameters, on a cache that
  holds that entry, reads the clock at \<open>T'\<close>: when \<open>T' - T \<le> 600000\<close> it returns
  the stored payload and leaves the cache as it is; when \<open>T' - T > 600000\<close> it returns
  or throws what it does with the entry removed, the outcome of a new request, and never
  the stored payload as such.
\<close>

theorem fetchWithCache_expiry:
  assumes miss: "cacheW (getCacheKey (json_value rtW) endpoint params) = None
                 \<or> isDataExpired (now_check rtW)
                      (timestamp (the (cacheW (getCacheKey (json_value rtW) endpoint params))))"
    and ok: "fetch rtW (api_url rtW endpoint params) = Ok d"
    and T: "T = now_store rtW"
    and kept: "cache (getCacheKey (json_value rt) endpoint params)
               = snd (fetchWithCache rtW cacheW endpoint params)
                   (getCacheKey (json_value rtW) endpoint params)"
  shows "fetchWithCache rtW cacheW endpoint params
           = (Inr d, cacheW(getCacheKey (json_value rtW) endpoint params
                              \<mapsto> \<lparr>data = d, timestamp = T\<rparr>))
       \<and> cache (getCacheKey (json_value rt) endpoint params) = Some \<lparr>data = d, timestamp = T\<rparr>
       \<and> (now_check rt - T \<le> 600000 \<longrightarrow>
            fetchWithCache rt cache endpoint params = (Inr d, cache))
       \<and> (now_check rt - T > 600000 \<longrightarrow>
            fst (fetchWithCache rt cache endpoint params)
              = fst (fetchWithCache rt (cache(getCacheKey (json_value rt) endpoint params := None))
                       endpoint params)
            \<and> fst (fetchWithCache rt cache endpoint params)
              = (case fetch rt (api_url rt endpoint params) of
                   Rejected m \<Rightarrow> Inl (Error m)
                 | NotOk statusText \<Rightarrow> Inl (Error (''API request failed: '' @ statusText))
                 | BadJson m \<Rightarrow> Inl (Error m)
                 | Ok d' \<Rightarrow> Inr d'))"
proof -
  let ?A = "getCacheKey (json_value rtW) endpoint params"
  let ?B = "getCacheKey (json_value rt) endpoint params"
  have w: "fetchWithCache rtW cacheW endpoint params
             = (Inr d, cacheW(?A \<mapsto> \<lparr>data = d, timestamp = T\<rparr>))"
    using miss ok T by (auto simp: fetchWithCache_def Let_def)
  have e: "cache ?B = Some \<lparr>data = d, timestamp = T\<rparr>"
    using kept w by simp
  have hit: "now_check rt - T \<le> 600000 \<longrightarrow> fetchWithCache rt cache endpoint params = (Inr d, cache)"
    using e by (simp add: fetchWithCache_def isDataExpired_def CACHE_DURATION_def Let_def)
  have late: "now_check rt - T > 600000 \<longrightarrow>
            fst (fetchWithCache rt cache endpoint params)
              = fst (fetchWithCache rt (cache(?B := None)) endpoint params)
            \<and> fst (fetchWithCache rt cache endpoint params)
              = (case fetch rt (api_url rt endpoint params) of
                   Rejected m \<Rightarrow> Inl (Error m)
                 | NotOk statusText \<Rightarrow> Inl (Error (''API request failed: '' @ statusText))
                 | BadJson m \<Rightarrow> Inl (Error m)
                 | Ok d' \<Rightarrow> Inr d')"
    using e
    by (simp add: fetchWithCache_def isDataExpired_def CACHE_DURATION_def Let_def
        split: response.split)
  show ?thesis by (intro conjI w e hit late)
qed

theorem fetchWithCache_expiry_witness:
  "fetchWithCache (sample_runtime 1000 1005 7) Map.empty ''weather'' [(''type'', ''current'')]
     = (Inr 7, Map.empty(getCacheKey json_of_string ''weather'' [(''type'', ''current'')]
                  \<mapsto> \<lparr>data = 7, timestamp = 1005\<rparr>))
   \<and> fetchWithCache (sample_runtime 601005 601010 9)
        (snd (fetchWithCache (sample_runtime 1000 1005 7) Map.empty ''weather''
                [(''type'', ''current'')]))
        ''weather'' [(''type'', ''current'')]
     = (Inr 7, snd (fetchWithCache (sample_runtime 1000 1005 7) Map.empty ''weather''
                [(''type'', ''current'')]))
   \<and> fst (fetchWithCache (sample_runtime 601006 601010 9)
        (snd (fetchWithCache (sample_runtime 1000 1005 7) Map.empty ''weather''
                [(''type'', ''current'')]))
        ''weather'' [(''type'', ''current'')])
     = Inr 9"
proof -
  let ?w = "sample_runtime 1000 1005 7"
  let ?p = "[(''type'', ''current'')]"
  let ?c = "snd (fetchWithCache ?w Map.empty ''weather'' ?p)"
  have miss: "Map.empty (getCacheKey (json_value ?w) ''weather'' ?p) = None
              \<or> isDataExpired (now_check ?w)
                   (timestamp (the (Map.empty (getCacheKey (json_value ?w) ''weather'' ?p))))"
    by simp
  have ok: "fetch ?w (api_url ?w ''weather'' ?p) = Ok 7" by (simp add: sample_runtime_def)
  have T: "1005 = now_store ?w" by (simp add: sample_runtime_def)
  have k1: "?c (getCacheKey (json_value (sample_runtime 601005 601010 9)) ''weather'' ?p)
              = ?c (getCacheKey (json_value ?w) ''weather'' ?p)"
    by (simp add: sample_runtime_def)
  have k2: "?c (getCacheKey (json_value (sample_runtime 601006 601010 9)) ''weather'' ?p)
              = ?c (getCacheKey (json_value ?w) ''weather'' ?p)"
    by (simp add: sample_runtime_def)
  note t1 = fetchWithCache_expiry
    [where rtW = "?w" and cacheW = Map.empty and rt = "sample_runtime 601005 601010 9"
       and cache = "?c" and T = 1005 and d = 7 and endpoint = "''weather''" and params = "?p",
     OF miss ok T k1]
  note t2 = fetchWithCache_expiry
    [where rtW = "?w" and cacheW = Map.empty and rt = "sample_runtime 601006 601010 9"
       and cache = "?c" and T = 1005 and d = 7 and endpoint = "''weather''" and params = "?p",
     OF miss ok T k2]
  have a: "fetchWithCache ?w Map.empty ''weather'' ?p
     = (Inr 7, Map.empty(getCacheKey json_of_string ''weather'' ?p
                  \<mapsto> \<lparr>data = 7, timestamp = 1005\<rparr>))"
    using t1 [THEN conjunct1] by (simp add: sample_runtime_def)
  have c1: "now_check (sample_runtime 601005 601010 9) - 1005 \<le> 600000"
    by (simp add: sample_runtime_def)
  have c2: "now_check (sample_runtime 601006 601010 9) - 1005 > 600000"
    by (simp add: sample_runtime_def)
  have b: "fetchWithCache (sample_runtime 601005 601010 9) ?c ''weather'' ?p = (Inr 7, ?c)"
    using t1 [THEN conjunct2, THEN conjunct2, THEN conjunct1] c1 by blast
  have "fst (fetchWithCache (sample_runtime 601006 601010 9) ?c ''weather'' ?p)
          = (case fetch (sample_runtime 601006 601010 9)
                    (api_url (sample_runtime 601006 601010 9) ''weather'' ?p) of
                   Rejected m \<Rightarrow> Inl (Error m)
                 | NotOk statusText \<Rightarrow> Inl (Error (''API request failed: '' @ statusText))
                 | BadJson m \<Rightarrow> Inl (Error m)
                 | Ok d' \<Rightarrow> Inr d')"
    using t2 [THEN conjunct2, THEN conjunct2, THEN conjunct2] c2 by blast
  then have c: "fst (fetchWithCache (sample_runtime 601006 601010 9) ?c ''weather'' ?p) = Inr 9"
    by (simp add: sample_runtime_def)
  show ?thesis by (intro conjI a b c)
qed


section \<open>Rounding to a double\<close>

lemma round_half_even_int [simp]: "round_half_even (of_int n) = n"
  by (simp add: round_half_even_def)

lemma round_half_even_close: "\<bar>of_int (round_half_even z) - z\<bar> \<le> 1 / 2"
  unfolding round_half_even_def Let_def by (auto; linarith)

lemma two_powr_int: "(2::real) powr real_of_int n = 2 powi n"
  by (rule powr_real_of_int') simp_all

lemma binade_eqI:
  assumes "2 powi e \<le> \<bar>x\<bar>" and "\<bar>x\<bar> < 2 powi (e + 1)" and "- 1022 \<le> e"
  shows "binade x = e"
proof -
  have "(0::real) < 2 powi e" by simp
  with assms(1) have pos: "0 < \<bar>x\<bar>" by linarith
  have a: "2 powr real_of_int e \<le> \<bar>x\<bar>"
    using assms(1) by (simp only: two_powr_int)
  have "real_of_int e + 1 = real_of_int (e + 1)" by simp
  then have b: "\<bar>x\<bar> < 2 powr (real_of_int e + 1)"
    using assms(2) by (simp only: two_powr_int)
  have "\<lfloor>log 2 \<bar>x\<bar>\<rfloor> = e"
    using floor_log_eq_powr_iff [of "\<bar>x\<bar>" 2 e] pos a b by simp
  then show ?thesis using assms(3) by (simp add: binade_def)
qed

lemma fl_eqI:
  assumes "2 powi e \<le> \<bar>x\<bar>" and "\<bar>x\<bar> < 2 powi (e + 1)" and "- 1022 \<le> e"
    and "y = of_int (round_half_even (x / 2 powi (e - 52))) * 2 powi (e - 52)"
    and "\<bar>y\<bar> < 2 ^ 1024"
  shows "fl x = Finite y"
proof -
  have "(0::real) < 2 powi e" by simp
  with assms(1) have "0 < \<bar>x\<bar>" by linarith
  then have "x \<noteq> 0" by simp
  then show ?thesis
    using binade_eqI [OF assms(1-3)] assms(4,5) by (simp add: fl_def Let_def)
qed

lemma fl_36: "fl 3.6 = Finite (8106479329266893 / 2 ^ 51)"
  by (rule fl_eqI [where e = 1]) (simp_all add: round_half_even_def)


lemma two_powi_less: "(2::real) powi a < 2 powi b \<Longrightarrow> a < b"
proof (rule ccontr)
  assume l: "(2::real) powi a < 2 powi b" and "\<not> a < b"
  then have "b \<le> a" by simp
  then have "(2::real) powi b \<le> 2 powi a" by (rule power_int_increasing) simp
  with l show False by simp
qed

lemma binade_bounds:
  assumes "2 powi (- 1022) \<le> \<bar>x\<bar>"
  shows "- 1022 \<le> binade x" and "2 powi binade x \<le> \<bar>x\<bar>" and "\<bar>x\<bar> < 2 powi (binade x + 1)"
proof -
  have "(0::real) < 2 powi (- 1022)" by simp
  with assms have pos: "0 < \<bar>x\<bar>" by linarith
  let ?k = "\<lfloor>log 2 \<bar>x\<bar>\<rfloor>"
  have k: "2 powr real_of_int ?k \<le> \<bar>x\<bar> \<and> \<bar>x\<bar> < 2 powr (real_of_int ?k + 1)"
    using floor_log_eq_powr_iff [of "\<bar>x\<bar>" 2 ?k] pos by simp
  have "real_of_int ?k + 1 = real_of_int (?k + 1)" by simp
  with k have k': "2 powi ?k \<le> \<bar>x\<bar>" "\<bar>x\<bar> < 2 powi (?k + 1)"
    by (simp_all only: two_powr_int)
  have "(2::real) powi (- 1022) < 2 powi (?k + 1)"
    using assms k'(2) by linarith
  then have "- 1022 < ?k + 1" by (rule two_powi_less)
  then have b: "binade x = ?k" by (simp add: binade_def)
  show "- 1022 \<le> binade x" by (simp add: binade_def)
  show "2 powi binade x \<le> \<bar>x\<bar>" using k'(1) b by simp
  show "\<bar>x\<bar> < 2 powi (binade x + 1)" using k'(2) b by simp
qed

text \<open>The product or sum is within a relative error of \<open>2^-53\<close> of the exact one.\<close>

lemma fl_error:
  assumes lo: "2 powi (- 1022) \<le> \<bar>x\<bar>" and hi: "\<bar>x\<bar> < 2 ^ 1023"
  shows "\<exists>y. fl x = Finite y \<and> \<bar>y - x\<bar> \<le> \<bar>x\<bar> / 2 ^ 53"
proof -
  note b = binade_bounds [OF lo]
  let ?e = "binade x"
  let ?q = "(2::real) powi (?e - 52)"
  let ?y = "of_int (round_half_even (x / ?q)) * ?q"
  have qpos: "0 < ?q" by simp
  have "(0::real) < 2 powi (- 1022)" by simp
  with lo have x0: "x \<noteq> 0" by auto
  have "\<bar>?y - x\<bar> = \<bar>of_int (round_half_even (x / ?q)) - x / ?q\<bar> * ?q"
  proof -
    have "?y - x = (of_int (round_half_even (x / ?q)) - x / ?q) * ?q"
      using qpos by (simp add: field_simps)
    then show ?thesis using qpos by (simp add: abs_mult)
  qed
  also have "\<dots> \<le> 1 / 2 * ?q"
    using round_half_even_close [of "x / ?q"] qpos by (intro mult_right_mono) simp_all
  also have "1 / 2 * ?q = 2 powi ?e / 2 ^ 53"
  proof -
    have "(2::real) powi (?e - 52) = 2 powi ?e * 2 powi (- 52)"
      by (simp add: power_int_diff power_int_minus field_simps)
    then show ?thesis by (simp add: power_int_minus field_simps)
  qed
  also have "\<dots> \<le> \<bar>x\<bar> / 2 ^ 53"
    using b(2) by (simp add: divide_right_mono)
  finally have err: "\<bar>?y - x\<bar> \<le> \<bar>x\<bar> / 2 ^ 53" .
  have "\<bar>?y\<bar> \<le> \<bar>x\<bar> + \<bar>x\<bar> / 2 ^ 53" using err by linarith
  also have "\<dots> < 2 ^ 1023 + 2 ^ 1023" using hi by (simp add: add_strict_mono)
  also have "\<dots> = (2::real) ^ 1024" by simp
  finally have "\<not> 2 ^ 1024 \<le> \<bar>?y\<bar>" by simp
  then have "fl x = Finite ?y" using x0 by (simp add: fl_def Let_def)
  with err show ?thesis by blast
qed

text \<open>Integers below \<open>2^53\<close> in magnitude are doubles.\<close>

lemma fl_int:
  assumes "\<bar>n\<bar> < 2 ^ 53"
  shows "fl (of_int n) = Finite (of_int n)"
proof (cases "n = 0")
  case True
  then show ?thesis by (simp add: fl_def)
next
  case False
  let ?x = "real_of_int n"
  have one: "1 \<le> \<bar>?x\<bar>" using False by (simp flip: of_int_abs)
  have "(2::real) powi (- 1022) \<le> 1" by (simp add: power_int_minus field_simps)
  with one have lo: "2 powi (- 1022) \<le> \<bar>?x\<bar>" by linarith
  note b = binade_bounds [OF lo]
  let ?e = "binade ?x"
  have "\<bar>?x\<bar> < 2 powi 53" using assms by (simp flip: of_int_abs)
  with b(2) have "(2::real) powi ?e < 2 powi 53" by linarith
  then have e53: "?e < 53" by (rule two_powi_less)
  define k where "k = nat (52 - ?e)"
  have q: "(2::real) powi (?e - 52) = 1 / 2 ^ k"
  proof -
    have "?e - 52 = - int k" using e53 by (simp add: k_def)
    then have "(2::real) powi (?e - 52) = 2 powi (- int k)" by simp
    also have "\<dots> = 1 / 2 ^ k" by (simp add: power_int_minus field_simps)
    finally show ?thesis .
  qed
  have "?x / 2 powi (?e - 52) = of_int (n * 2 ^ k)" by (simp add: q)
  then have r: "round_half_even (?x / 2 powi (?e - 52)) = n * 2 ^ k"
    by (simp only: round_half_even_int)
  have y: "of_int (round_half_even (?x / 2 powi (?e - 52))) * 2 powi (?e - 52) = ?x"
    unfolding r by (simp add: q)
  have "\<bar>?x\<bar> < 2 ^ 1024"
  proof -
    have "\<bar>?x\<bar> < 2 ^ 53" using assms by (simp flip: of_int_abs)
    also have "\<dots> \<le> (2::real) ^ 1024" by (rule power_increasing) simp_all
    finally show ?thesis .
  qed
  then show ?thesis using False y by (simp add: fl_def Let_def)
qed

lemma fl_360: "fl (10 * (8106479329266893 / 2 ^ 51)) = Finite 36"
  by (rule fl_eqI [where e = 5]) (simp_all add: round_half_even_def)

lemma fl_half_speed: "fl 0.9722222222222222 = Finite (8756999275442631 / 2 ^ 53)"
  by (rule fl_eqI [where e = "- 1"]) (simp_all add: round_half_even_def)

lemma fl_half_product:
  "fl (8756999275442631 / 2 ^ 53 * (8106479329266893 / 2 ^ 51)) = Finite (7 / 2)"
  by (rule fl_eqI [where e = 1]) (simp_all add: round_half_even_def)


lemma round_half_even_nonneg: "0 \<le> z \<Longrightarrow> 0 \<le> round_half_even z"
  unfolding round_half_even_def Let_def by (auto; linarith)

lemma fl_nonneg:
  assumes "0 \<le> x" and "fl x = Finite y"
  shows "0 \<le> y"
proof (cases "x = 0")
  case True
  with assms(2) show ?thesis by (simp add: fl_def)
next
  case False
  let ?q = "(2::real) powi (binade x - 52)"
  have q: "0 < ?q" by simp
  have "0 \<le> x / ?q" using assms(1) q by simp
  then have "0 \<le> round_half_even (x / ?q)" by (rule round_half_even_nonneg)
  then have "0 \<le> real_of_int (round_half_even (x / ?q)) * ?q" using q by simp
  moreover have "y = real_of_int (round_half_even (x / ?q)) * ?q"
    using assms(2) False by (simp add: fl_def Let_def split: if_splits)
  ultimately show ?thesis by simp
qed

text \<open>Below the normal range the error is at most half the spacing of the subnormals.\<close>

lemma fl_small:
  assumes "\<bar>x\<bar> < 2 powi (- 1022)"
  shows "\<exists>y. fl x = Finite y \<and> \<bar>y - x\<bar> \<le> 2 powi (- 1075)"
proof (cases "x = 0")
  case True
  then show ?thesis by (simp add: fl_def)
next
  case False
  then have pos: "0 < \<bar>x\<bar>" by simp
  let ?k = "\<lfloor>log 2 \<bar>x\<bar>\<rfloor>"
  have "2 powr real_of_int ?k \<le> \<bar>x\<bar>"
    using floor_log_eq_powr_iff [of "\<bar>x\<bar>" 2 ?k] pos by simp
  then have "2 powi ?k \<le> \<bar>x\<bar>" by (simp only: two_powr_int)
  with assms have "(2::real) powi ?k < 2 powi (- 1022)" by linarith
  then have "?k < - 1022" by (rule two_powi_less)
  then have b: "binade x = - 1022" by (simp add: binade_def)
  define q where "q = (2::real) powi (- 1074)"
  let ?y = "of_int (round_half_even (x / q)) * q"
  have qpos: "0 < q" by (simp add: q_def)
  have "\<bar>?y - x\<bar> = \<bar>of_int (round_half_even (x / q)) - x / q\<bar> * q"
  proof -
    have "?y - x = (of_int (round_half_even (x / q)) - x / q) * q"
      using qpos by (simp add: field_simps)
    then show ?thesis using qpos by (simp add: abs_mult)
  qed
  also have "\<dots> \<le> 1 / 2 * q"
    using round_half_even_close [of "x / q"] qpos by (intro mult_right_mono) simp_all
  also have "1 / 2 * q = 2 powi (- 1075)"
    by (simp add: q_def power_int_minus field_simps)
  finally have err: "\<bar>?y - x\<bar> \<le> 2 powi (- 1075)" .
  have "(2::real) powi (- 1075) \<le> 1" and "(2::real) powi (- 1022) \<le> 1"
    by (simp_all add: power_int_minus field_simps)
  with err assms have "\<bar>?y\<bar> < 2" by linarith
  also have "(2::real) \<le> 2 ^ 1024" using power_increasing [of 1 1024 "2::real"] by simp
  finally have nb: "\<not> 2 ^ 1024 \<le> \<bar>?y\<bar>" by simp
  have e: "2 powi (binade x - 52) = q" by (simp add: b q_def)
  have "fl x = Finite ?y" unfolding fl_def Let_def e using False nb by simp
  with err show ?thesis by blast
qed


section \<open>Facts about the views and the fallbacks\<close>

lemma Math_random_range: "0 \<le> Math_random w k \<and> Math_random w k \<le> 1 - 1 / 2 ^ 53"
proof -
  let ?m = "entropy w k mod 2 ^ 53"
  let ?j = "fineness w k mod 1022"
  have "?m < 2 ^ 53" by simp
  then have "?m \<le> 2 ^ 53 - 1" by linarith
  then have "real ?m \<le> real (2 ^ 53 - 1)" by (rule of_nat_mono)
  then have m: "real ?m \<le> 2 ^ 53 - 1" by simp
  have "(2::real) ^ 53 \<le> 2 ^ (53 + ?j)" by (rule power_increasing) simp_all
  then have "real ?m / 2 ^ (53 + ?j) \<le> real ?m / 2 ^ 53"
    by (intro divide_left_mono) simp_all
  also have "\<dots> \<le> (2 ^ 53 - 1) / 2 ^ 53" using m by (rule divide_right_mono) simp
  also have "\<dots> = 1 - 1 / (2::real) ^ 53" by (simp add: field_simps)
  finally have "Math_random w k \<le> 1 - 1 / 2 ^ 53" by (simp add: Math_random_def)
  moreover have "0 \<le> Math_random w k" by (simp add: Math_random_def)
  ultimately show ?thesis by simp
qed

text \<open>A product below \<open>c\<close> by a relative \<open>2^-53\<close> stays below \<open>c\<close> when it is rounded.\<close>

lemma fl_below:
  assumes "0 \<le> x" and "x \<le> c * (1 - 1 / 2 ^ 53)" and "1 \<le> c" and "c \<le> 2 ^ 1000"
  shows "\<exists>y. fl x = Finite y \<and> 0 \<le> y \<and> y < c"
proof (cases "x < 2 powi (- 1022)")
  case True
  with assms(1) have "\<bar>x\<bar> < 2 powi (- 1022)" by simp
  from fl_small [OF this] obtain y where y: "fl x = Finite y" "\<bar>y - x\<bar> \<le> 2 powi (- 1075)"
    by blast
  have "(2::real) powi (- 1075) < 1 / 2" and "(2::real) powi (- 1022) < 1 / 2"
    by (simp_all add: power_int_minus field_simps)
  with y(2) True assms(3) have "y < c" by linarith
  with y(1) fl_nonneg [OF assms(1) y(1)] show ?thesis by blast
next
  case False
  with assms(1) have lo: "2 powi (- 1022) \<le> \<bar>x\<bar>" by simp
  have eps: "0 < 1 / (2::real) ^ 53" "1 / (2::real) ^ 53 < 1" by simp_all
  define u where "u = 1 / (2::real) ^ 53"
  have u: "0 < u" "u < 1" using eps by (simp_all add: u_def)
  have xc: "x \<le> c * (1 - u)" using assms(2) by (simp add: u_def)
  have "c * (1 - u) \<le> c" using u assms(3) by (simp add: mult_le_cancel_left1)
  with xc have "x \<le> c" by linarith
  also have "c \<le> 2 ^ 1000" by (rule assms(4))
  also have "(2::real) ^ 1000 < 2 ^ 1023" by (rule power_strict_increasing) simp_all
  finally have hi: "\<bar>x\<bar> < 2 ^ 1023" using assms(1) by simp
  from fl_error [OF lo hi] obtain y where y: "fl x = Finite y" "\<bar>y - x\<bar> \<le> \<bar>x\<bar> / 2 ^ 53"
    by blast
  have "\<bar>x\<bar> / 2 ^ 53 = x * u" using assms(1) by (simp add: u_def)
  with y(2) have "y \<le> x + x * u" by linarith
  also have "\<dots> = x * (1 + u)" by (simp add: algebra_simps)
  also have "\<dots> \<le> c * (1 - u) * (1 + u)" using xc u by (intro mult_right_mono) simp_all
  also have "\<dots> = c * (1 - u * u)" by (simp add: algebra_simps)
  also have "\<dots> < c * 1" using u assms(3) by (intro mult_strict_left_mono) simp_all
  finally have "y < c" by simp
  with y(1) fl_nonneg [OF assms(1) y(1)] show ?thesis by blast
qed

text \<open>The index into the three mock conditions is in range.\<close>

lemma condition_index:
  "is_string (pick conditions (Math_floor (js_times (Finite (Math_random w k)) (Finite 3))))"
proof -
  let ?r = "Math_random w k"
  note r = Math_random_range [of w k]
  have "0 \<le> ?r * 3" using r by simp
  moreover have "?r * 3 \<le> 3 * (1 - 1 / 2 ^ 53)" using r by simp
  ultimately obtain y where y: "fl (?r * 3) = Finite y" "0 \<le> y" "y < 3"
    using fl_below [of "?r * 3" 3] by auto
  have "\<lfloor>y\<rfloor> < 3" using y(3) by (simp add: floor_less_iff)
  moreover have "0 \<le> \<lfloor>y\<rfloor>" using y(2) by simp
  ultimately have "nat \<lfloor>y\<rfloor> < 3" by linarith
  then show ?thesis
    using y(1,2) by (simp add: js_times_def Math_floor_def pick_def conditions_def is_string_def)
qed

lemma those_length: "those xs = Some ys \<Longrightarrow> length ys = length xs"
  by (induction xs arbitrary: ys) (auto split: option.splits)

lemma those_nth: "those xs = Some ys \<Longrightarrow> i < length xs \<Longrightarrow> xs ! i = Some (ys ! i)"
proof (induction xs arbitrary: ys i)
  case Nil
  then show ?case by simp
next
  case (Cons x xs)
  then show ?case by (cases i) (auto split: option.splits)
qed

lemma those_map_all:
  assumes "those (map f xs) = Some ys"
    and "\<And>x y. x \<in> set xs \<Longrightarrow> f x = Some y \<Longrightarrow> P y = Q x"
  shows "list_all P ys = list_all Q xs"
  using assms
proof (induction xs arbitrary: ys)
  case Nil
  then show ?case by simp
next
  case (Cons x xs)
  from Cons.prems(1) obtain y zs
    where y: "f x = Some y" and zs: "those (map f xs) = Some zs" and ys: "ys = y # zs"
    by (auto split: option.splits)
  have "P y = Q x" using Cons.prems(2) [of x y] y by simp
  moreover have "list_all P zs = list_all Q xs"
    using Cons.IH [OF zs] Cons.prems(2) by simp
  ultimately show ?case by (simp add: ys)
qed

lemma currentView_valid:
  assumes "currentView w b = Some v"
  shows "valid_WeatherData v = conforms_current b"
  using assms
  by (auto simp: currentView_def valid_WeatherData_def conforms_current_def is_optional_number_def
      bind_eq_Some_conv)

lemma hourlyEntry_valid:
  assumes "hourlyEntry w item = Some v"
  shows "valid_HourlyForecast v = conforms_hourly item"
  using assms
  by (auto simp: hourlyEntry_def valid_HourlyForecast_def conforms_hourly_def bind_eq_Some_conv)

lemma is_string_JStr [simp]: "is_string (JStr s)"
  by (simp add: is_string_def)

lemma is_number_JNum [simp]: "is_number (JNum n)"
  by (simp add: is_number_def)

lemma js_times_Finite: "js_times (Finite x) (Finite y) = fl (x * y)"
  by (simp add: js_times_def)

lemma js_plus_Finite: "js_plus (Finite x) (Finite y) = fl (x + y)"
  by (simp add: js_plus_def)

lemma weekday_name_None: "weekday_name w tv = None \<longleftrightarrow> tv = None"
  by (simp add: weekday_name_def getDay_def)

lemma weekday_name_Some: "(\<exists>y. weekday_name w tv = Some y) \<longleftrightarrow> (\<exists>t. tv = Some t)"
  by (simp add: weekday_name_def getDay_def)

lemma dailyEntry_fields:
  assumes "dailyEntry w p = Some v"
  shows "DailyForecast.day v
         = (if fst p = 0 then Some ''Today'' else weekday_name w (entry_date w (snd p)))"
    and "DailyForecast.condition v = leaf (snd p) [''weather'', ''0'', ''description'']"
    and "DailyForecast.humidity v = leaf (snd p) [''humidity'']"
    and "DailyForecast.icon v = leaf (snd p) [''weather'', ''0'', ''icon'']"
    and "DailyForecast.uvIndex v = leaf (snd p) [''uvi'']"
  using assms
  by (auto simp: dailyEntry_def entry_date_def bind_eq_Some_conv Let_def)

lemma dailyEntry_valid:
  assumes "dailyEntry w p = Some v"
  shows "valid_DailyForecast v = conforms_daily w p"
  by (cases "fst p = 0")
    (simp_all add: valid_DailyForecast_def conforms_daily_def dailyEntry_fields [OF assms]
      weekday_name_Some)

lemma alertEntry_valid:
  assumes "alertEntry w p = Some v"
  shows "valid_WeatherAlert v = conforms_alert p"
  using assms
  by (auto simp: alertEntry_def valid_WeatherAlert_def conforms_alert_def bind_eq_Some_conv Let_def)

lemma elements_raw_entries:
  assumes "read_member b k = Some x" and "elements x = Some items"
  shows "raw_entries b k = items"
  using assms by (auto simp: raw_entries_def elements_def split: js.splits)

lemma hourlyView_valid:
  assumes "hourlyView w b = Some vs"
  shows "list_all valid_HourlyForecast vs
         = list_all conforms_hourly (take 24 (raw_entries b ''list''))"
proof -
  from assms obtain x items
    where x: "read_member b ''list'' = Some x" and i: "elements x = Some items"
      and t: "those (map (hourlyEntry w) (take 24 items)) = Some vs"
    by (auto simp: hourlyView_def bind_eq_Some_conv)
  show ?thesis
    using those_map_all [OF t, of valid_HourlyForecast conforms_hourly] hourlyEntry_valid
      elements_raw_entries [OF x i]
    by simp
qed

lemma dailyView_valid:
  assumes "dailyView w b = Some vs"
  shows "list_all valid_DailyForecast vs
         = list_all (conforms_daily w) (List.enumerate 0 (take 7 (raw_entries b ''daily'')))"
proof -
  from assms obtain x items
    where x: "read_member b ''daily'' = Some x" and i: "elements x = Some items"
      and t: "those (map (dailyEntry w) (List.enumerate 0 (take 7 items))) = Some vs"
    by (auto simp: dailyView_def bind_eq_Some_conv)
  show ?thesis
    using those_map_all [OF t, of valid_DailyForecast "conforms_daily w"] dailyEntry_valid
      elements_raw_entries [OF x i]
    by simp
qed

lemma alertsView_valid:
  assumes "alertsView w b = Some vs"
  shows "list_all valid_WeatherAlert vs
         = list_all conforms_alert (List.enumerate 0 (raw_entries b ''alerts''))"
proof -
  from assms obtain x where x: "read_member b ''alerts'' = Some x"
    and r: "(if \<not> truthy x then Some []
             else elements x \<bind> (\<lambda>items. those (map (alertEntry w) (List.enumerate 0 items))))
            = Some vs"
    by (auto simp: alertsView_def bind_eq_Some_conv)
  show ?thesis
  proof (cases "truthy x")
    case False
    then have "vs = []" using r by simp
    moreover have "raw_entries b ''alerts'' = []"
      using x False by (auto simp: raw_entries_def truthy_def split: js.splits)
    ultimately show ?thesis by simp
  next
    case True
    with r obtain items where i: "elements x = Some items"
      and t: "those (map (alertEntry w) (List.enumerate 0 items)) = Some vs"
      by (auto simp: bind_eq_Some_conv)
    show ?thesis
      using those_map_all [OF t, of valid_WeatherAlert conforms_alert] alertEntry_valid
        elements_raw_entries [OF x i]
      by simp
  qed
qed

lemma currentFallback_valid: "valid_WeatherData (currentFallback la lo)"
  by (simp add: valid_WeatherData_def currentFallback_def is_optional_number_def)

lemma hourlyFallback_valid: "list_all valid_HourlyForecast (hourlyFallback w)"
  by (simp add: hourlyFallback_def list_all_iff valid_HourlyForecast_def hourlyMock_def
      condition_index)

text \<open>
  A clock that reads a date at least six days before the end of the range of dates:
  the date of each entry of the daily fallback is the clock plus whole days.
\<close>

lemma Date_new_int:
  assumes "\<bar>n\<bar> \<le> 8640000000000000"
  shows "Date_new (Finite (of_int n)) = Some n"
proof -
  have "\<bar>real_of_int n\<bar> \<le> 8640000000000000"
    using assms by (simp flip: of_int_abs)
  then show ?thesis by (simp add: Date_new_def)
qed

lemma mock_date_valid:
  assumes "\<bar>clock_at w i\<bar> \<le> 8639999481600000" and "i < 7"
  shows "mock_date w i = Some (clock_at w i + int i * msPerDay)"
proof -
  let ?c = "clock_at w i"
  define n where "n = ?c + int i * 86400000"
  have "\<bar>?c\<bar> \<le> 8640000000000000" using assms(1) by simp
  then have today: "Date_new (Finite (of_int ?c)) = Some ?c" by (rule Date_new_int)
  have n: "\<bar>n\<bar> \<le> 8640000000000000" using assms by (simp add: n_def)
  then have "\<bar>n\<bar> < 2 ^ 53" by simp
  then have f: "fl (of_int n) = Finite (of_int n)" by (rule fl_int)
  have eq: "real_of_int ?c + real i * 24 * 60 * 60 * 1000 = of_int n" by (simp add: n_def)
  have s: "js_plus (Finite (of_int ?c)) (Finite (of_nat i * 24 * 60 * 60 * 1000))
                = Finite (of_int n)"
    unfolding js_plus_Finite eq by (rule f)
  have "mock_date w i = Date_new (Finite (of_int n))"
    unfolding mock_date_def Let_def today Date_getTime_def option.case s ..
  also have "\<dots> = Some n" using n by (rule Date_new_int)
  finally show ?thesis by (simp add: n_def msPerDay_def)
qed

lemma dailyFallback_valid:
  assumes "\<forall>i<7. \<bar>clock_at w i\<bar> \<le> 8639999481600000"
  shows "list_all valid_DailyForecast (dailyFallback w)"
proof -
  have "valid_DailyForecast (dailyMock w i)" if "i < 7" for i
  proof -
    have "mock_date w i \<noteq> None" using mock_date_valid [of w i] assms that by simp
    then show ?thesis
      by (simp add: valid_DailyForecast_def dailyMock_def Let_def weekday_name_Some
          condition_index is_optional_number_def)
  qed
  then show ?thesis by (simp add: dailyFallback_def list_all_iff)
qed


section \<open>The sample surroundings, evaluated\<close>

lemma fl_36': "fl (18 / 5) = Finite (8106479329266893 / 2 ^ 51)"
  using fl_36 by simp

lemma kmh_36: "Math_round (js_times (Finite 10) (fl (18 / 5))) = Finite 36"
  unfolding fl_36' js_times_Finite fl_360 by (simp add: Math_round_def)

lemma fl_8: "fl 8 = Finite 8"
  using fl_int [of 8] by simp

lemma fl_25: "fl 25 = Finite 25"
  using fl_int [of 25] by simp

lemma Math_round_Finite: "Math_round (Finite x) = Finite (of_int \<lfloor>x + 1 / 2\<rfloor>)"
  by (simp add: Math_round_def)

lemma read_first: "read_member (JArr (x # xs)) ''0'' = Some x"
  by (simp add: read_member_def is_array_index_def is_digit_def parse_nat_def dec.simps
      digit_char_def char_of_eq_iff)

lemma read_object:
  "read_member (JObj ms) k = Some (case map_of ms k of None \<Rightarrow> JUndefined | Some v \<Rightarrow> v)"
  by (simp add: read_member_def)

lemma sample_currentView:
  "currentView w sample_current = Some (sample_current_view (Finite 36))"
  by (simp add: currentView_def sample_current_def sample_current_with_def sample_weather_def
      sample_current_view_def read_object read_first to_number_def kmh_36 js_over_def
      is_zero_def is_infinite_def fl_8 Math_round_Finite)

lemma fl_numeral:
  assumes "numeral k < (2::int) ^ 53"
  shows "fl (numeral k) = Finite (numeral k)"
  using fl_int [of "numeral k"] assms by simp

lemma fl_0: "fl 0 = Finite 0"
  by (simp add: fl_def)

text \<open>A timestamp in whole seconds: the date is exact, when there is one.\<close>

lemma seconds_date:
  assumes "\<bar>t\<bar> < 9007199254740"
  shows "Date_new (js_times (Finite (of_int t)) (Finite 1000))
         = (if \<bar>t\<bar> \<le> 8640000000000 then Some (t * 1000) else None)"
proof -
  define n where "n = t * 1000"
  have "\<bar>n\<bar> < 2 ^ 53" using assms by (simp add: n_def)
  then have f: "fl (of_int n) = Finite (of_int n)" by (rule fl_int)
  have eq: "real_of_int t * 1000 = of_int n" by (simp add: n_def)
  have m: "js_times (Finite (of_int t)) (Finite 1000) = Finite (of_int n)"
    unfolding js_times_Finite eq by (rule f)
  show ?thesis
  proof (cases "\<bar>t\<bar> \<le> 8640000000000")
    case True
    then have "\<bar>n\<bar> \<le> 8640000000000000" by (simp add: n_def)
    then have "Date_new (Finite (of_int n)) = Some n" by (rule Date_new_int)
    then show ?thesis using True m by (simp add: n_def)
  next
    case False
    then have "8640000000000000 < \<bar>n\<bar>" by (simp add: n_def)
    then have "8640000000000000 < \<bar>real_of_int n\<bar>" by (simp flip: of_int_abs)
    then have "Date_new (Finite (of_int n)) = None" by (simp add: Date_new_def)
    then show ?thesis using False m by simp
  qed
qed

lemma fetched_offline:
  "fetched offline Map.empty la lo ty = Inl (Error ''API request failed: Service Unavailable'')"
  by (simp add: fetched_def fetchWithCache_def runtime_of_def offline_def Let_def)

lemma fetched_serving: "fetched (serving b) Map.empty la lo ty = Inr b"
  by (simp add: fetched_def fetchWithCache_def runtime_of_def offline_def serving_def Let_def)

lemma sample_hourlyView: "hourlyView (serving b) sample_forecast = Some sample_hourly_view"
  by (simp add: hourlyView_def hourlyEntry_def sample_forecast_def sample_weather_def
      sample_hourly_view_def read_object read_first elements_def to_number_def kmh_36
      js_times_Finite fl_25 Math_round_Finite serving_def offline_def)

lemma hollow_currentView: "currentView (serving b) hollow_body = Some hollow_view"
  by (simp add: currentView_def hollow_body_def hollow_view_def read_object read_first
      to_number_def js_times_def js_over_def Math_round_def)

lemma sample_entry0:
  "dailyEntry (serving b) (0, sample_day t) = Some (sample_day_view (Some ''Today''))"
  by (simp add: dailyEntry_def sample_day_def sample_weather_def sample_day_view_def
      read_object read_first to_number_def kmh_36 js_times_Finite fl_25 Math_round_Finite
      serving_def offline_def)

lemma sample_entry_later:
  "dailyEntry (serving b) (Suc i, sample_day t)
   = Some (sample_day_view (weekday_name (serving b) (Date_new (js_times (Finite t) (Finite 1000)))))"
  by (simp add: dailyEntry_def sample_day_def sample_weather_def sample_day_view_def
      read_object read_first to_number_def kmh_36 fl_25 Math_round_Finite
      serving_def offline_def js_times_Finite [of "1 / 4" 100])

lemma lower_severe: "toLowerCase ''Severe Thunderstorm Warning'' = ''severe thunderstorm warning''"
  by (simp add: toLowerCase_def lower_char_def char_of_eq_iff)

lemma lower_rain: "toLowerCase ''Heavy Rain Advisory'' = ''heavy rain advisory''"
  by (simp add: toLowerCase_def lower_char_def char_of_eq_iff)

lemma lower_wind: "toLowerCase ''Wind Advisory'' = ''wind advisory''"
  by (simp add: toLowerCase_def lower_char_def char_of_eq_iff)

lemma alertCategory_rules: "alertCategory ev = first_match category_rules Other ev"
  by (simp add: alertCategory_def category_rules_def)

lemma alertTier_rules:
  "fst (alertTier ev) = first_match tier_rules Minor ev"
  "snd (alertTier ev) = tier_score (fst (alertTier ev))"
  by (simp_all add: alertTier_def tier_rules_def tier_score_def)

lemma class_severe:
  "alertTier ''severe thunderstorm warning'' = (Severe, 8)"
  "alertCategory ''severe thunderstorm warning'' = Storm"
  by (simp_all add: alertTier_def alertCategory_def)

lemma class_rain:
  "alertTier ''heavy rain advisory'' = (Moderate, 6)"
  "alertCategory ''heavy rain advisory'' = Rain"
  by (simp_all add: alertTier_def alertCategory_def)

lemma class_wind:
  "alertTier ''wind advisory'' = (Moderate, 6)"
  "alertCategory ''wind advisory'' = Wind"
  by (simp_all add: alertTier_def alertCategory_def)

lemma string_of_Some: "string_of x = Some s \<longleftrightarrow> x = JStr s"
  by (cases x) (simp_all add: string_of_def)

lemma alertEntry_fields:
  assumes "alertEntry w p = Some a"
  shows "read_member (snd p) ''event'' = Some (JStr (WeatherAlert.title a))"
    and "WeatherAlert.tier a = fst (alertTier (toLowerCase (WeatherAlert.title a)))"
    and "WeatherAlert.severity a = snd (alertTier (toLowerCase (WeatherAlert.title a)))"
    and "WeatherAlert.category a = alertCategory (toLowerCase (WeatherAlert.title a))"
  using assms
  by (auto simp: alertEntry_def string_of_Some bind_eq_Some_conv Let_def)

lemma alertsView_entries:
  assumes "alertsView w b = Some as" and "a \<in> set as"
  shows "\<exists>p. alertEntry w p = Some a"
proof -
  from assms obtain als
    where t: "those (map (alertEntry w) (List.enumerate 0 als)) = Some as"
    by (auto simp: alertsView_def bind_eq_Some_conv split: if_splits)
  from assms(2) obtain j where j: "j < length as" "as ! j = a"
    by (auto simp: in_set_conv_nth)
  have l: "length as = length als" using those_length [OF t] by simp
  have "map (alertEntry w) (List.enumerate 0 als) ! j = Some (as ! j)"
    using those_nth [OF t] j l by simp
  then have "alertEntry w (j, als ! j) = Some a"
    using j l by (simp add: nth_enumerate_eq)
  then show ?thesis by blast
qed

lemma getWeatherAlerts_cases:
  "fst (getWeatherAlerts w cache la lo)
   = Inr (case fetched w cache la lo ''onecall'' of
            Inl e \<Rightarrow> []
          | Inr b \<Rightarrow> (case alertsView w b of None \<Rightarrow> [] | Some v \<Rightarrow> v))"
  by (simp add: getWeatherAlerts_def fetched_def split: prod.splits sum.splits option.splits)

lemma getWeatherAlerts_entries:
  assumes "fst (getWeatherAlerts w cache la lo) = Inr as" and "a \<in> set as"
  shows "\<exists>p. alertEntry w p = Some a"
proof -
  from assms have "\<exists>b. alertsView w b = Some as"
    by (auto simp: getWeatherAlerts_cases split: sum.splits option.splits)
  then show ?thesis using alertsView_entries assms(2) by blast
qed

lemma sample_alertEntry:
  "alertEntry (serving b) (0, sample_alert ''Severe Thunderstorm Warning'')
     = Some (sample_alert_view ''alert-0'' ''Severe Thunderstorm Warning'' Severe Storm 8)"
  "alertEntry (serving b) (Suc 0, sample_alert ''Heavy Rain Advisory'')
     = Some (sample_alert_view ''alert-1'' ''Heavy Rain Advisory'' Moderate Rain 6)"
  "alertEntry (serving b) (Suc (Suc 0), sample_alert ''Wind Advisory'')
     = Some (sample_alert_view ''alert-2'' ''Wind Advisory'' Moderate Wind 6)"
  by (simp_all add: alertEntry_def sample_alert_def sample_alert_view_def serving_def offline_def
      read_object string_of_def to_number_def js_times_Finite fl_0 fl_numeral
      toISOString_def Date_new_def Let_def lower_severe lower_rain lower_wind
      class_severe class_rain class_wind dec.simps digit_char_def char_of_eq_iff)

lemma sample_alertsView: "alertsView (serving b) sample_alerts = Some sample_alert_views"
  by (simp add: alertsView_def sample_alerts_def sample_alert_views_def read_object truthy_def
      elements_def enumerate_eq_zip upt_rec sample_alertEntry)

lemma sample_getWeatherAlerts:
  "fst (getWeatherAlerts (serving sample_alerts) Map.empty 1 2) = Inr sample_alert_views"
  by (simp add: getWeatherAlerts_cases fetched_serving sample_alertsView)

lemma sample_dailyView:
  "dailyView (serving b) sample_onecall
   = Some [sample_day_view (Some ''Today''), sample_day_view (Some ''Sat'')]"
proof -
  have "Date_new (js_times (Finite (of_int 172800)) (Finite 1000)) = Some 172800000"
    using seconds_date [of 172800] by simp
  then have "weekday_name (serving b) (Date_new (js_times (Finite 172800) (Finite 1000)))
             = Some ''Sat''"
    by (simp add: weekday_name_def getDay_def msPerDay_def days_def serving_def offline_def)
  then show ?thesis
    by (simp add: dailyView_def sample_onecall_def read_object elements_def enumerate_eq_zip
        upt_rec sample_entry0 sample_entry_later)
qed



section \<open>The fetchers return, and fall back\<close>

lemma getCurrentWeather_cases:
  "fst (getCurrentWeather w cache la lo)
   = Inr (case fetched w cache la lo ''current'' of
            Inl e \<Rightarrow> currentFallback la lo
          | Inr b \<Rightarrow> (case currentView w b of None \<Rightarrow> currentFallback la lo | Some v \<Rightarrow> v))"
  by (simp add: getCurrentWeather_def fetched_def split: prod.splits sum.splits option.splits)

lemma getHourlyForecast_cases:
  "fst (getHourlyForecast w cache la lo)
   = Inr (case fetched w cache la lo ''forecast'' of
            Inl e \<Rightarrow> hourlyFallback w
          | Inr b \<Rightarrow> (case hourlyView w b of None \<Rightarrow> hourlyFallback w | Some v \<Rightarrow> v))"
  by (simp add: getHourlyForecast_def fetched_def split: prod.splits sum.splits option.splits)

lemma getDailyForecast_cases:
  "fst (getDailyForecast w cache la lo)
   = Inr (case fetched w cache la lo ''onecall'' of
            Inl e \<Rightarrow> dailyFallback w
          | Inr b \<Rightarrow> (case dailyView w b of None \<Rightarrow> dailyFallback w | Some v \<Rightarrow> v))"
  by (simp add: getDailyForecast_def fetched_def split: prod.splits sum.splits option.splits)

lemma hourlyView_length: "hourlyView w b = Some v \<Longrightarrow> length v \<le> 24"
  by (auto simp: hourlyView_def bind_eq_Some_conv dest!: those_length)

lemma dailyView_length: "dailyView w b = Some v \<Longrightarrow> length v \<le> 7"
  by (auto simp: dailyView_def bind_eq_Some_conv dest!: those_length)

lemma getHourlyForecast_returns:
  "\<exists>v. fst (getHourlyForecast w cache la lo) = Inr v \<and> length v \<le> 24"
proof -
  have "length (hourlyFallback w) = 24" by (simp add: hourlyFallback_def)
  then show ?thesis
    using hourlyView_length [of w]
    by (auto simp: getHourlyForecast_cases split: sum.splits option.splits)
qed

lemma getDailyForecast_returns:
  "\<exists>v. fst (getDailyForecast w cache la lo) = Inr v \<and> length v \<le> 7"
proof -
  have "length (dailyFallback w) = 7" by (simp add: dailyFallback_def)
  then show ?thesis
    using dailyView_length [of w]
    by (auto simp: getDailyForecast_cases split: sum.splits option.splits)
qed

text \<open>
  C3, as the code has it. In every world, on every cache and for all coordinates, each of
  the four fetchers returns a view model and throws nothing. When the cached fetch
  throws, or the payload makes the normalisation throw, the fetcher returns its fallback:
  the fixed placeholder record, the 24 and the 7 mock entries, the empty alert list; the
  fallbacks are structurally valid (the daily one while the clock reads a date at least
  six days before the end of the range of dates). When the normalisation does not throw,
  the fetcher returns the normalised view model, and that is structurally valid exactly
  when the payload holds values of the declared types where the fetcher copies a member
  (and, for a daily entry past the first, a timestamp that is a date).
\<close>

theorem fetchers_fall_back:
  "(\<exists>v. fst (getCurrentWeather w cache la lo) = Inr v)
   \<and> (\<exists>v. fst (getHourlyForecast w cache la lo) = Inr v)
   \<and> (\<exists>v. fst (getDailyForecast w cache la lo) = Inr v)
   \<and> (\<exists>v. fst (getWeatherAlerts w cache la lo) = Inr v)
   \<and> ((\<exists>e. fetched w cache la lo ''current'' = Inl e)
        \<or> (\<exists>b. fetched w cache la lo ''current'' = Inr b \<and> currentView w b = None)
       \<longrightarrow> fst (getCurrentWeather w cache la lo) = Inr (currentFallback la lo))
   \<and> ((\<exists>e. fetched w cache la lo ''forecast'' = Inl e)
        \<or> (\<exists>b. fetched w cache la lo ''forecast'' = Inr b \<and> hourlyView w b = None)
       \<longrightarrow> fst (getHourlyForecast w cache la lo) = Inr (hourlyFallback w))
   \<and> ((\<exists>e. fetched w cache la lo ''onecall'' = Inl e)
        \<or> (\<exists>b. fetched w cache la lo ''onecall'' = Inr b \<and> dailyView w b = None)
       \<longrightarrow> fst (getDailyForecast w cache la lo) = Inr (dailyFallback w))
   \<and> ((\<exists>e. fetched w cache la lo ''onecall'' = Inl e)
        \<or> (\<exists>b. fetched w cache la lo ''onecall'' = Inr b \<and> alertsView w b = None)
       \<longrightarrow> fst (getWeatherAlerts w cache la lo) = Inr [])
   \<and> valid_WeatherData (currentFallback la lo)
   \<and> length (hourlyFallback w) = 24 \<and> list_all valid_HourlyForecast (hourlyFallback w)
   \<and> length (dailyFallback w) = 7
   \<and> ((\<forall>i<7. \<bar>clock_at w i\<bar> \<le> 8639999481600000)
       \<longrightarrow> list_all valid_DailyForecast (dailyFallback w))
   \<and> (\<forall>b v. fetched w cache la lo ''current'' = Inr b \<and> currentView w b = Some v
       \<longrightarrow> fst (getCurrentWeather w cache la lo) = Inr v
           \<and> (valid_WeatherData v \<longleftrightarrow> conforms_current b))
   \<and> (\<forall>b v. fetched w cache la lo ''forecast'' = Inr b \<and> hourlyView w b = Some v
       \<longrightarrow> fst (getHourlyForecast w cache la lo) = Inr v
           \<and> (list_all valid_HourlyForecast v
                \<longleftrightarrow> list_all conforms_hourly (take 24 (raw_entries b ''list''))))
   \<and> (\<forall>b v. fetched w cache la lo ''onecall'' = Inr b \<and> dailyView w b = Some v
       \<longrightarrow> fst (getDailyForecast w cache la lo) = Inr v
           \<and> (list_all valid_DailyForecast v
                \<longleftrightarrow> list_all (conforms_daily w)
                      (List.enumerate 0 (take 7 (raw_entries b ''daily'')))))
   \<and> (\<forall>b v. fetched w cache la lo ''onecall'' = Inr b \<and> alertsView w b = Some v
       \<longrightarrow> fst (getWeatherAlerts w cache la lo) = Inr v
           \<and> (list_all valid_WeatherAlert v
                \<longleftrightarrow> list_all conforms_alert (List.enumerate 0 (raw_entries b ''alerts''))))"
proof -
  have r1: "\<exists>v. fst (getCurrentWeather w cache la lo) = Inr v"
    by (simp add: getCurrentWeather_cases)
  have r2: "\<exists>v. fst (getHourlyForecast w cache la lo) = Inr v"
    by (simp add: getHourlyForecast_cases)
  have r3: "\<exists>v. fst (getDailyForecast w cache la lo) = Inr v"
    by (simp add: getDailyForecast_cases)
  have r4: "\<exists>v. fst (getWeatherAlerts w cache la lo) = Inr v"
    by (simp add: getWeatherAlerts_cases)
  have f1: "(\<exists>e. fetched w cache la lo ''current'' = Inl e)
        \<or> (\<exists>b. fetched w cache la lo ''current'' = Inr b \<and> currentView w b = None)
       \<longrightarrow> fst (getCurrentWeather w cache la lo) = Inr (currentFallback la lo)"
    by (auto simp: getCurrentWeather_cases)
  have f2: "(\<exists>e. fetched w cache la lo ''forecast'' = Inl e)
        \<or> (\<exists>b. fetched w cache la lo ''forecast'' = Inr b \<and> hourlyView w b = None)
       \<longrightarrow> fst (getHourlyForecast w cache la lo) = Inr (hourlyFallback w)"
    by (auto simp: getHourlyForecast_cases)
  have f3: "(\<exists>e. fetched w cache la lo ''onecall'' = Inl e)
        \<or> (\<exists>b. fetched w cache la lo ''onecall'' = Inr b \<and> dailyView w b = None)
       \<longrightarrow> fst (getDailyForecast w cache la lo) = Inr (dailyFallback w)"
    by (auto simp: getDailyForecast_cases)
  have f4: "(\<exists>e. fetched w cache la lo ''onecall'' = Inl e)
        \<or> (\<exists>b. fetched w cache la lo ''onecall'' = Inr b \<and> alertsView w b = None)
       \<longrightarrow> fst (getWeatherAlerts w cache la lo) = Inr []"
    by (auto simp: getWeatherAlerts_cases)
  have v1: "valid_WeatherData (currentFallback la lo)" by (rule currentFallback_valid)
  have v2: "length (hourlyFallback w) = 24" by (simp add: hourlyFallback_def)
  have v3: "list_all valid_HourlyForecast (hourlyFallback w)" by (rule hourlyFallback_valid)
  have v4: "length (dailyFallback w) = 7" by (simp add: dailyFallback_def)
  have v5: "(\<forall>i<7. \<bar>clock_at w i\<bar> \<le> 8639999481600000)
       \<longrightarrow> list_all valid_DailyForecast (dailyFallback w)"
    using dailyFallback_valid by blast
  have s1: "\<forall>b v. fetched w cache la lo ''current'' = Inr b \<and> currentView w b = Some v
       \<longrightarrow> fst (getCurrentWeather w cache la lo) = Inr v
           \<and> (valid_WeatherData v \<longleftrightarrow> conforms_current b)"
    using currentView_valid by (auto simp: getCurrentWeather_cases)
  have s2: "\<forall>b v. fetched w cache la lo ''forecast'' = Inr b \<and> hourlyView w b = Some v
       \<longrightarrow> fst (getHourlyForecast w cache la lo) = Inr v
           \<and> (list_all valid_HourlyForecast v
                \<longleftrightarrow> list_all conforms_hourly (take 24 (raw_entries b ''list'')))"
    using hourlyView_valid by (auto simp: getHourlyForecast_cases)
  have s3: "\<forall>b v. fetched w cache la lo ''onecall'' = Inr b \<and> dailyView w b = Some v
       \<longrightarrow> fst (getDailyForecast w cache la lo) = Inr v
           \<and> (list_all valid_DailyForecast v
                \<longleftrightarrow> list_all (conforms_daily w)
                      (List.enumerate 0 (take 7 (raw_entries b ''daily''))))"
    using dailyView_valid by (auto simp: getDailyForecast_cases)
  have s4: "\<forall>b v. fetched w cache la lo ''onecall'' = Inr b \<and> alertsView w b = Some v
       \<longrightarrow> fst (getWeatherAlerts w cache la lo) = Inr v
           \<and> (list_all valid_WeatherAlert v
                \<longleftrightarrow> list_all conforms_alert (List.enumerate 0 (raw_entries b ''alerts'')))"
    using alertsView_valid by (auto simp: getWeatherAlerts_cases)
  show ?thesis
    by (intro conjI r1 r2 r3 r4 f1 f2 f3 f4 v1 v2 v3 v4 v5 s1 s2 s3 s4)
qed

theorem fetchers_fall_back_witness:
  "fetched offline Map.empty 1 2 ''current'' = Inl (Error ''API request failed: Service Unavailable'')
   \<and> fst (getCurrentWeather offline Map.empty 1 2) = Inr (currentFallback 1 2)
   \<and> fst (getHourlyForecast offline Map.empty 1 2) = Inr (hourlyFallback offline)
   \<and> fst (getDailyForecast offline Map.empty 1 2) = Inr (dailyFallback offline)
   \<and> fst (getWeatherAlerts offline Map.empty 1 2) = Inr []
   \<and> list_all valid_DailyForecast (dailyFallback offline)
   \<and> currentView (serving JNull) JNull = None
   \<and> fst (getCurrentWeather (serving JNull) Map.empty 1 2) = Inr (currentFallback 1 2)
   \<and> fst (getCurrentWeather (serving sample_current) Map.empty 1 2)
       = Inr (sample_current_view (Finite 36))
   \<and> conforms_current sample_current
   \<and> valid_WeatherData (sample_current_view (Finite 36))
   \<and> fst (getHourlyForecast (serving sample_forecast) Map.empty 1 2) = Inr sample_hourly_view
   \<and> list_all valid_HourlyForecast sample_hourly_view
   \<and> fst (getDailyForecast (serving sample_onecall) Map.empty 1 2)
       = Inr [sample_day_view (Some ''Today''), sample_day_view (Some ''Sat'')]
   \<and> list_all valid_DailyForecast [sample_day_view (Some ''Today''), sample_day_view (Some ''Sat'')]
   \<and> fst (getWeatherAlerts (serving sample_alerts) Map.empty 1 2) = Inr sample_alert_views
   \<and> list_all valid_WeatherAlert sample_alert_views"
proof -
  have f: "fetched offline Map.empty 1 2 ty = Inl (Error ''API request failed: Service Unavailable'')"
    for ty
    by (rule fetched_offline)
  have s: "fetched (serving b) Map.empty 1 2 ty = Inr b" for b ty
    by (rule fetched_serving)
  note off = fetchers_fall_back [of offline Map.empty 1 2, THEN conjunct2, THEN conjunct2,
      THEN conjunct2, THEN conjunct2]
  have c: "fst (getCurrentWeather offline Map.empty 1 2) = Inr (currentFallback 1 2)"
    using off [THEN conjunct1] f by blast
  have h: "fst (getHourlyForecast offline Map.empty 1 2) = Inr (hourlyFallback offline)"
    using off [THEN conjunct2, THEN conjunct1] f by blast
  have d: "fst (getDailyForecast offline Map.empty 1 2) = Inr (dailyFallback offline)"
    using off [THEN conjunct2, THEN conjunct2, THEN conjunct1] f by blast
  have a: "fst (getWeatherAlerts offline Map.empty 1 2) = Inr []"
    using off [THEN conjunct2, THEN conjunct2, THEN conjunct2, THEN conjunct1] f by blast
  note off' = off [THEN conjunct2, THEN conjunct2, THEN conjunct2, THEN conjunct2]
  have "\<forall>i<7. \<bar>clock_at offline i\<bar> \<le> 8639999481600000" by (simp add: offline_def)
  then have dv: "list_all valid_DailyForecast (dailyFallback offline)"
    using off' [THEN conjunct2, THEN conjunct2, THEN conjunct2, THEN conjunct2, THEN conjunct1]
    by blast
  have n: "currentView (serving JNull) JNull = None"
    by (simp add: currentView_def read_member_def)
  have m: "fst (getCurrentWeather (serving JNull) Map.empty 1 2) = Inr (currentFallback 1 2)"
    using fetchers_fall_back [of "serving JNull" Map.empty 1 2, THEN conjunct2, THEN conjunct2,
        THEN conjunct2, THEN conjunct2, THEN conjunct1] s [of JNull] n
    by blast
  note suc = conjunct2 [THEN conjunct2, THEN conjunct2, THEN conjunct2, THEN conjunct2,
      THEN conjunct2, THEN conjunct2, THEN conjunct2, THEN conjunct2, THEN conjunct2,
      THEN conjunct2, THEN conjunct2, THEN conjunct2]
  have sc: "fst (getCurrentWeather (serving sample_current) Map.empty 1 2)
              = Inr (sample_current_view (Finite 36))
            \<and> (valid_WeatherData (sample_current_view (Finite 36))
                 \<longleftrightarrow> conforms_current sample_current)"
    using fetchers_fall_back [of "serving sample_current" Map.empty 1 2, THEN suc, THEN conjunct1]
      s [of sample_current] sample_currentView [of "serving sample_current"]
    by blast
  have cc: "conforms_current sample_current"
    by (simp add: conforms_current_def sample_current_def sample_current_with_def
        sample_weather_def read_object read_first)
  have sh: "fst (getHourlyForecast (serving sample_forecast) Map.empty 1 2)
              = Inr sample_hourly_view
            \<and> (list_all valid_HourlyForecast sample_hourly_view
                 \<longleftrightarrow> list_all conforms_hourly (take 24 (raw_entries sample_forecast ''list'')))"
    using fetchers_fall_back [of "serving sample_forecast" Map.empty 1 2, THEN suc,
        THEN conjunct2, THEN conjunct1]
      s [of sample_forecast] sample_hourlyView [of sample_forecast]
    by blast
  have ch: "list_all conforms_hourly (take 24 (raw_entries sample_forecast ''list''))"
    by (simp add: conforms_hourly_def raw_entries_def sample_forecast_def sample_weather_def
        read_object read_first)
  have sd: "fst (getDailyForecast (serving sample_onecall) Map.empty 1 2)
              = Inr [sample_day_view (Some ''Today''), sample_day_view (Some ''Sat'')]
            \<and> (list_all valid_DailyForecast
                   [sample_day_view (Some ''Today''), sample_day_view (Some ''Sat'')]
                 \<longleftrightarrow> list_all (conforms_daily (serving sample_onecall))
                       (List.enumerate 0 (take 7 (raw_entries sample_onecall ''daily''))))"
    using fetchers_fall_back [of "serving sample_onecall" Map.empty 1 2, THEN suc,
        THEN conjunct2, THEN conjunct2, THEN conjunct1]
      s [of sample_onecall] sample_dailyView [of sample_onecall]
    by blast
  have "Date_new (js_times (Finite (of_int 172800)) (Finite 1000)) = Some 172800000"
    using seconds_date [of 172800] by simp
  then have cd: "list_all (conforms_daily (serving sample_onecall))
                   (List.enumerate 0 (take 7 (raw_entries sample_onecall ''daily'')))"
    by (simp add: conforms_daily_def entry_date_def raw_entries_def sample_onecall_def
        sample_day_def sample_weather_def read_object read_first to_number_def
        is_optional_number_def enumerate_eq_zip upt_rec)
  have sa: "fst (getWeatherAlerts (serving sample_alerts) Map.empty 1 2) = Inr sample_alert_views
            \<and> (list_all valid_WeatherAlert sample_alert_views
                 \<longleftrightarrow> list_all conforms_alert
                       (List.enumerate 0 (raw_entries sample_alerts ''alerts'')))"
    using fetchers_fall_back [of "serving sample_alerts" Map.empty 1 2, THEN suc,
        THEN conjunct2, THEN conjunct2, THEN conjunct2]
      s [of sample_alerts] sample_alertsView [of sample_alerts]
    by blast
  have ca: "list_all conforms_alert (List.enumerate 0 (raw_entries sample_alerts ''alerts''))"
    by (simp add: conforms_alert_def raw_entries_def sample_alerts_def sample_alert_def
        read_object enumerate_eq_zip upt_rec)
  show ?thesis
    using f [of "''current''"] c h d a dv n m sc cc sh ch sd cd sa ca by simp
qed

text \<open>
  C3, as the specification states it, fails: a body with its objects in place and their
  members missing makes nothing throw, and \<open>getCurrentWeather\<close> returns neither the
  fallback nor a structurally valid view model: the condition, the humidity, the icon,
  the pressure and the coordinates are \<open>undefined\<close>.
\<close>

theorem fetchers_invalid_counterexample:
  "fst (getCurrentWeather (serving hollow_body) Map.empty 1 2) = Inr hollow_view
   \<and> hollow_view \<noteq> currentFallback 1 2
   \<and> \<not> valid_WeatherData hollow_view"
  by (simp add: getCurrentWeather_cases fetched_serving hollow_currentView hollow_view_def
      currentFallback_def valid_WeatherData_def is_string_def)

text \<open>
  C5. Whatever the network answers and however long the raw list of the payload is, the
  hourly forecast has at most 24 entries and the daily forecast at most 7.
\<close>

theorem forecast_lengths:
  "(\<exists>v. fst (getHourlyForecast w cache la lo) = Inr v \<and> length v \<le> 24)
   \<and> (\<exists>v. fst (getDailyForecast w cache la lo) = Inr v \<and> length v \<le> 7)"
  using getHourlyForecast_returns getDailyForecast_returns by blast


section \<open>Units\<close>

lemma currentView_windSpeed:
  assumes "currentView w b = Some v"
  shows "\<exists>speedN. to_number w (leaf b [''wind'', ''speed'']) = Some speedN
           \<and> WeatherData.windSpeed v = Math_round (js_times speedN (fl 3.6))"
  using assms by (auto simp: currentView_def bind_eq_Some_conv)

text \<open>
  The product of a speed with the double nearest to 3.6, rounded to a double and then to
  an integer, is within one half and a relative \<open>10^-15\<close> of the exact product.
\<close>

lemma kmh_bound:
  assumes "\<bar>s\<bar> \<le> 10 ^ 300"
  shows "\<exists>n. Math_round (js_times (Finite s) (Finite (8106479329266893 / 2 ^ 51)))
               = Finite (of_int n)
             \<and> \<bar>of_int n - s * 3.6\<bar> \<le> 1 / 2 + \<bar>s\<bar> / 10 ^ 15"
proof -
  define d where "d = (8106479329266893 / 2 ^ 51 :: real)"
  define x where "x = s * d"
  have d: "d = 3.6 + 1 / (5 * 2 ^ 51)" by (simp add: d_def)
  have d4: "18 / 5 \<le> d" "d \<le> 4" by (simp_all add: d_def)
  have ax: "\<bar>x\<bar> = \<bar>s\<bar> * d" using d4 by (simp add: x_def abs_mult)
  have "18 / 5 * \<bar>s\<bar> \<le> d * \<bar>s\<bar>" by (rule mult_right_mono [OF d4(1)]) simp
  then have lo: "18 / 5 * \<bar>s\<bar> \<le> \<bar>x\<bar>" by (simp only: ax mult.commute)
  have "d * \<bar>s\<bar> \<le> 4 * \<bar>s\<bar>" by (rule mult_right_mono [OF d4(2)]) simp
  then have hi4: "\<bar>x\<bar> \<le> 4 * \<bar>s\<bar>" by (simp only: ax mult.commute)
  have dx: "\<bar>x - s * 3.6\<bar> = \<bar>s\<bar> / (5 * 2 ^ 51)"
  proof -
    define c where "c = 1 / (5 * 2 ^ 51 :: real)"
    have c: "0 \<le> c" by (simp add: c_def)
    have "x - s * 3.6 = s * c" unfolding x_def d c_def by (simp add: algebra_simps)
    then have "\<bar>x - s * 3.6\<bar> = \<bar>s * c\<bar>" by (simp only:)
    also have "\<dots> = \<bar>s\<bar> * c" using c by (simp add: abs_mult)
    finally show ?thesis by (simp add: c_def)
  qed
  have m: "js_times (Finite s) (Finite (8106479329266893 / 2 ^ 51)) = fl x"
    by (simp add: js_times_Finite x_def d_def)
  show ?thesis
  proof (cases "\<bar>x\<bar> < 2 powi (- 1022)")
    case True
    from fl_small [OF True] obtain y where y: "fl x = Finite y" "\<bar>y - x\<bar> \<le> 2 powi (- 1075)"
      by blast
    have "(2::real) powi (- 1075) < 1 / 4" and "(2::real) powi (- 1022) < 1 / 4"
      by (simp_all add: power_int_minus field_simps)
    with y(2) True have ysmall: "\<bar>y\<bar> < 1 / 2" and xsmall: "\<bar>x\<bar> < 1 / 4" by linarith+
    then have "\<lfloor>y + 1 / 2\<rfloor> = 0" by (simp add: floor_eq_iff) linarith
    then have r: "Math_round (fl x) = Finite (of_int 0)" by (simp add: y(1) Math_round_Finite)
    have "\<bar>s * 3.6\<bar> = 18 / 5 * \<bar>s\<bar>" by (simp add: abs_mult)
    with lo xsmall have "\<bar>of_int 0 - s * 3.6\<bar> \<le> 1 / 2 + \<bar>s\<bar> / 10 ^ 15" by simp
    with r m show ?thesis by metis
  next
    case False
    then have l: "2 powi (- 1022) \<le> \<bar>x\<bar>" by simp
    have "\<bar>x\<bar> \<le> 4 * 10 ^ 300" using hi4 assms by linarith
    also have "\<dots> < (2::real) ^ 1023" by simp
    finally have h: "\<bar>x\<bar> < 2 ^ 1023" .
    from fl_error [OF l h] obtain y where y: "fl x = Finite y" "\<bar>y - x\<bar> \<le> \<bar>x\<bar> / 2 ^ 53"
      by blast
    define n where "n = \<lfloor>y + 1 / 2\<rfloor>"
    have r: "Math_round (fl x) = Finite (of_int n)" by (simp add: y(1) Math_round_Finite n_def)
    have ny: "\<bar>of_int n - y\<bar> \<le> 1 / 2" unfolding n_def by linarith
    have "\<bar>x\<bar> / 2 ^ 53 \<le> 4 * \<bar>s\<bar> / 2 ^ 53" using hi4 by (simp add: divide_right_mono)
    with y(2) have yx: "\<bar>y - x\<bar> \<le> 4 * \<bar>s\<bar> / 2 ^ 53" by linarith
    have "4 * \<bar>s\<bar> / 2 ^ 53 + \<bar>s\<bar> / (5 * 2 ^ 51) \<le> \<bar>s\<bar> / 10 ^ 15"
    proof -
      have "4 * \<bar>s\<bar> / 2 ^ 53 + \<bar>s\<bar> / (5 * 2 ^ 51) = \<bar>s\<bar> * (24 / (5 * 2 ^ 53))" by simp
      also have "\<dots> \<le> \<bar>s\<bar> * (1 / 10 ^ 15)" by (intro mult_left_mono) simp_all
      finally show ?thesis by simp
    qed
    with ny yx dx have "\<bar>of_int n - s * 3.6\<bar> \<le> 1 / 2 + \<bar>s\<bar> / 10 ^ 15" by linarith
    with r m show ?thesis by metis
  qed
qed

text \<open>
  C8, as the code has it. When the fetch gives a body that the normalisation accepts, the
  wind speed of the view model is \<open>Math.round(speed * 3.6)\<close> in the arithmetic of
  doubles: the speed member converted to a number, times the double nearest to 3.6,
  rounded to a double, then to an integer with a half going up. For a numeric speed up to
  \<open>10^300\<close> in magnitude that is an integer within one half and a relative \<open>10^-15\<close> of
  the exact product. A speed of 10 m/s gives 36 km/h.
\<close>

theorem windSpeed_kmh:
  assumes "fetched w cache la lo ''current'' = Inr b"
    and "currentView w b = Some v"
  shows "fst (getCurrentWeather w cache la lo) = Inr v
     \<and> (\<exists>speedN. to_number w (leaf b [''wind'', ''speed'']) = Some speedN
           \<and> WeatherData.windSpeed v = Math_round (js_times speedN (fl 3.6)))
     \<and> fl 3.6 = Finite (8106479329266893 / 2 ^ 51)
     \<and> (\<forall>s. leaf b [''wind'', ''speed''] = JNum (Finite s) \<and> \<bar>s\<bar> \<le> 10 ^ 300
         \<longrightarrow> (\<exists>n. WeatherData.windSpeed v = Finite (of_int n)
                  \<and> \<bar>of_int n - s * 3.6\<bar> \<le> 1 / 2 + \<bar>s\<bar> / 10 ^ 15))
     \<and> (leaf b [''wind'', ''speed''] = JNum (Finite 10)
         \<longrightarrow> WeatherData.windSpeed v = Finite 36)"
proof -
  have g: "fst (getCurrentWeather w cache la lo) = Inr v"
    using assms by (simp add: getCurrentWeather_cases)
  from currentView_windSpeed [OF assms(2)] obtain speedN
    where n: "to_number w (leaf b [''wind'', ''speed'']) = Some speedN"
      and ws: "WeatherData.windSpeed v = Math_round (js_times speedN (fl 3.6))"
    by blast
  have e: "\<exists>speedN. to_number w (leaf b [''wind'', ''speed'']) = Some speedN
           \<and> WeatherData.windSpeed v = Math_round (js_times speedN (fl 3.6))"
    using n ws by blast
  have b: "\<forall>s. leaf b [''wind'', ''speed''] = JNum (Finite s) \<and> \<bar>s\<bar> \<le> 10 ^ 300
         \<longrightarrow> (\<exists>n. WeatherData.windSpeed v = Finite (of_int n)
                  \<and> \<bar>of_int n - s * 3.6\<bar> \<le> 1 / 2 + \<bar>s\<bar> / 10 ^ 15)"
  proof (intro allI impI)
    fix s
    assume a: "leaf b [''wind'', ''speed''] = JNum (Finite s) \<and> \<bar>s\<bar> \<le> 10 ^ 300"
    then have "speedN = Finite s" using n by (simp add: to_number_def)
    then have "WeatherData.windSpeed v
               = Math_round (js_times (Finite s) (Finite (8106479329266893 / 2 ^ 51)))"
      using ws by (simp only: fl_36)
    then show "\<exists>n. WeatherData.windSpeed v = Finite (of_int n)
                  \<and> \<bar>of_int n - s * 3.6\<bar> \<le> 1 / 2 + \<bar>s\<bar> / 10 ^ 15"
      using kmh_bound [of s] a by simp
  qed
  have t: "leaf b [''wind'', ''speed''] = JNum (Finite 10)
         \<longrightarrow> WeatherData.windSpeed v = Finite 36"
  proof
    assume "leaf b [''wind'', ''speed''] = JNum (Finite 10)"
    then have "speedN = Finite 10" using n by (simp add: to_number_def)
    then show "WeatherData.windSpeed v = Finite 36"
      using ws kmh_36 by simp
  qed
  show ?thesis by (intro conjI g e fl_36 b t)
qed

theorem windSpeed_kmh_witness:
  "fetched (serving sample_current) Map.empty 1 2 ''current'' = Inr sample_current
   \<and> currentView (serving sample_current) sample_current = Some (sample_current_view (Finite 36))
   \<and> leaf sample_current [''wind'', ''speed''] = JNum (Finite 10)
   \<and> fst (getCurrentWeather (serving sample_current) Map.empty 1 2)
       = Inr (sample_current_view (Finite 36))
   \<and> WeatherData.windSpeed (sample_current_view (Finite 36)) = Finite 36
   \<and> (\<exists>n. WeatherData.windSpeed (sample_current_view (Finite 36)) = Finite (of_int n)
          \<and> \<bar>of_int n - 10 * 3.6\<bar> \<le> 1 / 2 + \<bar>10 :: real\<bar> / 10 ^ 15)"
proof -
  have f: "fetched (serving sample_current) Map.empty 1 2 ''current'' = Inr sample_current"
    by (rule fetched_serving)
  have c: "currentView (serving sample_current) sample_current
           = Some (sample_current_view (Finite 36))"
    by (rule sample_currentView)
  have l: "leaf sample_current [''wind'', ''speed''] = JNum (Finite 10)"
    by (simp add: sample_current_def sample_current_with_def read_object)
  note t = windSpeed_kmh [OF f c]
  have g: "fst (getCurrentWeather (serving sample_current) Map.empty 1 2)
       = Inr (sample_current_view (Finite 36))"
    using t [THEN conjunct1] .
  have k: "WeatherData.windSpeed (sample_current_view (Finite 36)) = Finite 36"
    using t [THEN conjunct2, THEN conjunct2, THEN conjunct2, THEN conjunct2] l by blast
  have "\<bar>10 :: real\<bar> \<le> 10 ^ 300" by simp
  then have b: "\<exists>n. WeatherData.windSpeed (sample_current_view (Finite 36)) = Finite (of_int n)
          \<and> \<bar>of_int n - 10 * 3.6\<bar> \<le> 1 / 2 + \<bar>10 :: real\<bar> / 10 ^ 15"
    using t [THEN conjunct2, THEN conjunct2, THEN conjunct2, THEN conjunct1] l by blast
  show ?thesis by (intro conjI f c l g k b)
qed

text \<open>
  C8, as the specification states it, fails: for the speed \<open>0.9722222222222222\<close> the
  exact product with 3.6 is below 3.5 and its nearest integer is 3, and the code gives 4,
  because the product of the doubles rounds to the double 3.5.
\<close>

theorem windSpeed_nearest_counterexample:
  "fl 0.9722222222222222 = Finite near_half_speed
   \<and> fst (getCurrentWeather (serving (sample_current_with (JNum (Finite near_half_speed))))
            Map.empty 1 2)
       = Inr (sample_current_view (Finite 4))
   \<and> near_half_speed * 3.6 < 7 / 2
   \<and> round (near_half_speed * 3.6) = 3"
proof -
  have a: "fl 0.9722222222222222 = Finite near_half_speed"
    using fl_half_speed by (simp add: near_half_speed_def)
  have "Math_round (js_times (Finite near_half_speed) (fl (18 / 5))) = Finite 4"
    unfolding fl_36' js_times_Finite near_half_speed_def fl_half_product
    by (simp add: Math_round_Finite)
  then have "currentView w (sample_current_with (JNum (Finite near_half_speed)))
             = Some (sample_current_view (Finite 4))" for w
    by (simp add: currentView_def sample_current_with_def sample_weather_def
        sample_current_view_def read_object read_first to_number_def js_over_def
        is_zero_def is_infinite_def fl_8 Math_round_Finite)
  then have b: "fst (getCurrentWeather (serving (sample_current_with (JNum (Finite near_half_speed))))
            Map.empty 1 2)
       = Inr (sample_current_view (Finite 4))"
    by (simp add: getCurrentWeather_cases fetched_serving)
  have c: "near_half_speed * 3.6 < 7 / 2" by (simp add: near_half_speed_def)
  have d: "round (near_half_speed * 3.6) = 3"
    by (simp add: near_half_speed_def round_def floor_eq_iff)
  show ?thesis by (intro conjI a b c d)
qed


section \<open>Day labels of the daily forecast\<close>













section \<open>Classification of alerts\<close>

text \<open>
  C4. Every alert that \<open>getWeatherAlerts\<close> returns is classified from its lower-cased
  event text (its title): the category is that of the first rule, in the order storm or
  thunder, rain or flood, wind, snow or winter, temperature or heat or cold, with a keyword
  in the text, and \<open>other\<close> when there is none; the tier is severe, moderate or minor by
  its own rules, with the scores 8, 6 and 3. The three event texts of the specification
  get the tiers and categories it names.
\<close>

theorem alert_classification:
  assumes "fst (getWeatherAlerts w cache la lo) = Inr as" and "a \<in> set as"
  shows "WeatherAlert.category a
           = first_match category_rules Other (toLowerCase (WeatherAlert.title a))
     \<and> WeatherAlert.tier a = first_match tier_rules Minor (toLowerCase (WeatherAlert.title a))
     \<and> WeatherAlert.severity a = tier_score (WeatherAlert.tier a)
     \<and> (WeatherAlert.title a = ''Severe Thunderstorm Warning'' \<longrightarrow>
          WeatherAlert.tier a = Severe \<and> WeatherAlert.category a = Storm
          \<and> WeatherAlert.severity a = 8)
     \<and> (WeatherAlert.title a = ''Heavy Rain Advisory'' \<longrightarrow>
          WeatherAlert.tier a = Moderate \<and> WeatherAlert.category a = Rain
          \<and> WeatherAlert.severity a = 6)
     \<and> (WeatherAlert.title a = ''Wind Advisory'' \<longrightarrow>
          WeatherAlert.tier a = Moderate \<and> WeatherAlert.category a = Wind
          \<and> WeatherAlert.severity a = 6)"
proof -
  from getWeatherAlerts_entries [OF assms] obtain p
    where e: "alertEntry w p = Some a" by blast
  let ?ev = "toLowerCase (WeatherAlert.title a)"
  have t: "WeatherAlert.tier a = fst (alertTier ?ev)"
    and s: "WeatherAlert.severity a = snd (alertTier ?ev)"
    and c: "WeatherAlert.category a = alertCategory ?ev"
    using alertEntry_fields(2-4) [OF e] by simp_all
  have g1: "WeatherAlert.category a = first_match category_rules Other ?ev"
    using c alertCategory_rules by simp
  have g2: "WeatherAlert.tier a = first_match tier_rules Minor ?ev"
    using t alertTier_rules(1) by simp
  have g3: "WeatherAlert.severity a = tier_score (WeatherAlert.tier a)"
    using t s alertTier_rules(2) by simp
  have g4: "WeatherAlert.title a = ''Severe Thunderstorm Warning'' \<longrightarrow>
          WeatherAlert.tier a = Severe \<and> WeatherAlert.category a = Storm
          \<and> WeatherAlert.severity a = 8"
    using t s c by (simp add: lower_severe class_severe)
  have g5: "WeatherAlert.title a = ''Heavy Rain Advisory'' \<longrightarrow>
          WeatherAlert.tier a = Moderate \<and> WeatherAlert.category a = Rain
          \<and> WeatherAlert.severity a = 6"
    using t s c by (simp add: lower_rain class_rain)
  have g6: "WeatherAlert.title a = ''Wind Advisory'' \<longrightarrow>
          WeatherAlert.tier a = Moderate \<and> WeatherAlert.category a = Wind
          \<and> WeatherAlert.severity a = 6"
    using t s c by (simp add: lower_wind class_wind)
  show ?thesis by (intro conjI g1 g2 g3 g4 g5 g6)
qed


theorem alert_classification_witness:
  "fst (getWeatherAlerts (serving sample_alerts) Map.empty 1 2) = Inr sample_alert_views
   \<and> sample_alert_views ! 0 \<in> set sample_alert_views
   \<and> WeatherAlert.title (sample_alert_views ! 0) = ''Severe Thunderstorm Warning''
   \<and> WeatherAlert.tier (sample_alert_views ! 0) = Severe
   \<and> WeatherAlert.category (sample_alert_views ! 0) = Storm
   \<and> WeatherAlert.severity (sample_alert_views ! 0) = 8
   \<and> sample_alert_views ! 1 \<in> set sample_alert_views
   \<and> WeatherAlert.title (sample_alert_views ! 1) = ''Heavy Rain Advisory''
   \<and> WeatherAlert.tier (sample_alert_views ! 1) = Moderate
   \<and> WeatherAlert.category (sample_alert_views ! 1) = Rain
   \<and> WeatherAlert.severity (sample_alert_views ! 1) = 6
   \<and> sample_alert_views ! 2 \<in> set sample_alert_views
   \<and> WeatherAlert.title (sample_alert_views ! 2) = ''Wind Advisory''
   \<and> WeatherAlert.tier (sample_alert_views ! 2) = Moderate
   \<and> WeatherAlert.category (sample_alert_views ! 2) = Wind
   \<and> WeatherAlert.severity (sample_alert_views ! 2) = 6"
proof -
  have m0: "sample_alert_views ! 0 \<in> set sample_alert_views"
    and m1: "sample_alert_views ! 1 \<in> set sample_alert_views"
    and m2: "sample_alert_views ! 2 \<in> set sample_alert_views"
    by (simp_all add: sample_alert_views_def)
  have t0: "WeatherAlert.title (sample_alert_views ! 0) = ''Severe Thunderstorm Warning''"
    and t1: "WeatherAlert.title (sample_alert_views ! 1) = ''Heavy Rain Advisory''"
    and t2: "WeatherAlert.title (sample_alert_views ! 2) = ''Wind Advisory''"
    by (simp_all add: sample_alert_views_def sample_alert_view_def)
  note c0 = alert_classification [OF sample_getWeatherAlerts m0]
  note c1 = alert_classification [OF sample_getWeatherAlerts m1]
  note c2 = alert_classification [OF sample_getWeatherAlerts m2]
  have r0: "WeatherAlert.tier (sample_alert_views ! 0) = Severe
      \<and> WeatherAlert.category (sample_alert_views ! 0) = Storm
      \<and> WeatherAlert.severity (sample_alert_views ! 0) = 8"
    using c0 [THEN conjunct2, THEN conjunct2, THEN conjunct2, THEN conjunct1] t0 by blast
  have r1: "WeatherAlert.tier (sample_alert_views ! 1) = Moderate
      \<and> WeatherAlert.category (sample_alert_views ! 1) = Rain
      \<and> WeatherAlert.severity (sample_alert_views ! 1) = 6"
    using c1 [THEN conjunct2, THEN conjunct2, THEN conjunct2, THEN conjunct2, THEN conjunct1] t1
    by blast
  have r2: "WeatherAlert.tier (sample_alert_views ! 2) = Moderate
      \<and> WeatherAlert.category (sample_alert_views ! 2) = Wind
      \<and> WeatherAlert.severity (sample_alert_views ! 2) = 6"
    using c2 [THEN conjunct2, THEN conjunct2, THEN conjunct2, THEN conjunct2, THEN conjunct2] t2
    by blast
  show ?thesis
    using sample_getWeatherAlerts m0 m1 m2 t0 t1 t2 r0 r1 r2 by simp
qed


section \<open>Responses of the proxy route\<close>




section \<open>A search that finds nothing\<close>

lemma getWeatherByCity_not_found:
  assumes "geocoder gw (geocodingUrl gw q) = Ok None \<or> geocoder gw (geocodingUrl gw q) = Ok (Some [])"
  shows \<open>getWeatherByCity gw w cache q
           = (Inl (Error (''Failed to get weather for '' @ q @ '': City "'' @ q @ ''" not found'')), cache)\<close>
  using assms by (auto simp: getWeatherByCity_def cityLookup_def message_def)

text \<open>
  C6. A search (a query that is not blank) for a name that the geocoder answers with no
  entry fails: \<open>getWeatherByCity\<close> throws an error that says the city was not found.
  \<open>handleSearch\<close> shows its message, schedules the removal of the message 3000 ms ahead
  (the callback sets the message to \<open>null\<close>), clears the loading flag, and leaves the
  current weather, the hourly and the daily forecast, the alerts, the location and the
  cache as they were.
\<close>

theorem search_not_found:
  assumes "\<not> trim_is_empty (searchQuery st)"
    and "geocoder (geo ws) (geocodingUrl (geo ws) (searchQuery st)) = Ok None
         \<or> geocoder (geo ws) (geocodingUrl (geo ws) (searchQuery st)) = Ok (Some [])"
  shows \<open>fst (getWeatherByCity (geo ws) (for_current ws) (service_cache st) (searchQuery st))
            = Inl (Error (''Failed to get weather for '' @ searchQuery st
                            @ '': City "'' @ searchQuery st @ ''" not found''))
     \<and> searchError (handleSearch ws st)
            = Some (''Failed to get weather for '' @ searchQuery st
                      @ '': City "'' @ searchQuery st @ ''" not found'')
     \<and> timeouts (handleSearch ws st) = timeouts st @ [(3000, ClearSearchError)]
     \<and> searchError (fire ClearSearchError (handleSearch ws st)) = None
     \<and> page.weather (handleSearch ws st) = page.weather st
     \<and> hourlyForecast (handleSearch ws st) = hourlyForecast st
     \<and> dailyForecast (handleSearch ws st) = dailyForecast st
     \<and> page.alerts (handleSearch ws st) = page.alerts st
     \<and> userLocation (handleSearch ws st) = userLocation st
     \<and> service_cache (handleSearch ws st) = service_cache st
     \<and> loading (handleSearch ws st) = False\<close>
proof -
  let ?st1 = "st\<lparr>loading := True, searchError := None\<rparr>"
  have g: \<open>getWeatherByCity (geo ws) (for_current ws) (service_cache ?st1) (searchQuery st)
           = (Inl (Error (''Failed to get weather for '' @ searchQuery st
                            @ '': City "'' @ searchQuery st @ ''" not found'')),
              service_cache ?st1)\<close>
    by (rule getWeatherByCity_not_found [OF assms(2)])
  have h: \<open>handleSearch ws st
      = searchFailed (Error (''Failed to get weather for '' @ searchQuery st
                            @ '': City "'' @ searchQuery st @ ''" not found''))
          (?st1\<lparr>service_cache := service_cache ?st1\<rparr>)\<close>
    using assms(1) g by (simp add: handleSearch_def Let_def)
  show ?thesis
    using g unfolding h by (simp add: searchFailed_def fire_def message_def)
qed

theorem search_not_found_witness:
  \<open>\<not> trim_is_empty (searchQuery sample_page)
   \<and> geocoder (geo sample_search) (geocodingUrl (geo sample_search) (searchQuery sample_page))
       = Ok (Some [])
   \<and> searchError (handleSearch sample_search sample_page)
       = Some ''Failed to get weather for Atlantis: City "Atlantis" not found''
   \<and> timeouts (handleSearch sample_search sample_page) = [(3000, ClearSearchError)]
   \<and> page.weather (handleSearch sample_search sample_page) = Some (currentFallback 1 2)\<close>
proof -
  have a: "\<not> trim_is_empty (searchQuery sample_page)"
    by (simp add: sample_page_def trim_is_empty_def is_white_space_def)
  have b: "geocoder (geo sample_search) (geocodingUrl (geo sample_search) (searchQuery sample_page))
       = Ok (Some [])"
    by (simp add: sample_search_def nowhere_def)
  have b': "geocoder (geo sample_search) (geocodingUrl (geo sample_search) (searchQuery sample_page)) = Ok None
       \<or> geocoder (geo sample_search) (geocodingUrl (geo sample_search) (searchQuery sample_page))
       = Ok (Some [])"
    using b by simp
  note t = search_not_found [OF a b']
  have q: "searchQuery sample_page = ''Atlantis''" by (simp add: sample_page_def)
  have c: \<open>searchError (handleSearch sample_search sample_page)
       = Some ''Failed to get weather for Atlantis: City "Atlantis" not found''\<close>
    using t [THEN conjunct2, THEN conjunct1] by (simp add: q)
  have d: "timeouts (handleSearch sample_search sample_page) = [(3000, ClearSearchError)]"
    using t [THEN conjunct2, THEN conjunct2, THEN conjunct1] by (simp add: sample_page_def)
  have e: "page.weather (handleSearch sample_search sample_page) = Some (currentFallback 1 2)"
    using t [THEN conjunct2, THEN conjunct2, THEN conjunct2, THEN conjunct2, THEN conjunct1]
    by (simp add: sample_page_def)
  show ?thesis by (intro conjI a b c d e)
qed


section \<open>What the cache holds\<close>

lemma fetchWithCache_entries:
  assumes "snd (fetchWithCache rt c endpoint params) k = Some e"
  shows "c k = Some e \<or> fetch rt (api_url rt endpoint params) = Ok (data e)"
  using assms
  by (auto simp: fetchWithCache_def Let_def split: if_splits response.splits)

lemma fetchWithCache_result:
  assumes "fst (fetchWithCache rt c endpoint params) = Inr d"
  shows "(\<exists>k e. c k = Some e \<and> data e = d) \<or> fetch rt (api_url rt endpoint params) = Ok d"
  using assms
  by (auto simp: fetchWithCache_def Let_def split: if_splits response.splits)

lemma getCurrentWeather_cache:
  "snd (getCurrentWeather w c la lo)
     = snd (fetchWithCache (runtime_of w) c ''weather''
              [(''lat'', PNum la), (''lon'', PNum lo), (''type'', PStr ''current'')])"
  by (auto simp: getCurrentWeather_def split: prod.splits sum.splits option.splits)

lemma getHourlyForecast_cache:
  "snd (getHourlyForecast w c la lo)
     = snd (fetchWithCache (runtime_of w) c ''weather''
              [(''lat'', PNum la), (''lon'', PNum lo), (''type'', PStr ''forecast'')])"
  by (auto simp: getHourlyForecast_def split: prod.splits sum.splits option.splits)

lemma getDailyForecast_cache:
  "snd (getDailyForecast w c la lo)
     = snd (fetchWithCache (runtime_of w) c ''weather''
              [(''lat'', PNum la), (''lon'', PNum lo), (''type'', PStr ''onecall'')])"
  by (auto simp: getDailyForecast_def split: prod.splits sum.splits option.splits)

lemma getWeatherAlerts_cache:
  "snd (getWeatherAlerts w c la lo)
     = snd (fetchWithCache (runtime_of w) c ''weather''
              [(''lat'', PNum la), (''lon'', PNum lo), (''type'', PStr ''onecall'')])"
  by (auto simp: getWeatherAlerts_def split: prod.splits sum.splits option.splits)

lemma network_runtime: "fetch (runtime_of w) url = network w url"
  by (simp add: runtime_of_def)

lemma fetcher_entries:
  assumes "snd (fetchWithCache (runtime_of w) c ''weather''
              [(''lat'', PNum la), (''lon'', PNum lo), (''type'', PStr ty)]) k = Some e"
  shows "c k = Some e \<or> network w (weather_url w la lo ty) = Ok (data e)"
  using fetchWithCache_entries [OF assms] by (simp add: weather_url_def network_runtime)

lemma getWeatherByCity_cache:
  "snd (getWeatherByCity gw w c q)
     = (case geocoder gw (geocodingUrl gw q) of
          Ok (Some (g # _)) \<Rightarrow> snd (getCurrentWeather w c (geo_entry.lat g) (geo_entry.lon g))
        | _ \<Rightarrow> c)"
  by (auto simp: getWeatherByCity_def cityLookup_def
      split: prod.splits sum.splits option.splits response.splits list.splits)

lemma step_entries:
  assumes "step call c k = Some e"
  shows "c k = Some e \<or> answer call = Some (Ok (data e))"
proof (cases call)
  case (OpCurrent w la lo)
  with assms fetcher_entries [of w c la lo "''current''" k e] show ?thesis
    by (simp add: getCurrentWeather_cache)
next
  case (OpHourly w la lo)
  with assms fetcher_entries [of w c la lo "''forecast''" k e] show ?thesis
    by (simp add: getHourlyForecast_cache)
next
  case (OpDaily w la lo)
  with assms fetcher_entries [of w c la lo "''onecall''" k e] show ?thesis
    by (simp add: getDailyForecast_cache)
next
  case (OpAlerts w la lo)
  with assms fetcher_entries [of w c la lo "''onecall''" k e] show ?thesis
    by (simp add: getWeatherAlerts_cache)
next
  case (OpCity gw w q)
  with assms show ?thesis
    using fetcher_entries [of w c _ _ "''current''" k e]
    by (auto simp: getWeatherByCity_cache getCurrentWeather_cache
        split: response.splits option.splits list.splits)
next
  case OpClear
  with assms show ?thesis by (simp add: clearCache_def)
qed

lemma run_entries:
  "run ops c k = Some e \<Longrightarrow> c k = Some e \<or> answered ops (data e)"
proof (induction ops arbitrary: c)
  case Nil
  then show ?case by (simp add: run_def)
next
  case (Cons call ops)
  from Cons.prems have "run ops (step call c) k = Some e" by (simp add: run_def)
  from Cons.IH [OF this] have "step call c k = Some e \<or> answered ops (data e)" .
  then show ?case
  proof
    assume "step call c k = Some e"
    from step_entries [OF this] show ?thesis by (auto simp: answered_def)
  next
    assume "answered ops (data e)"
    then show ?thesis by (simp add: answered_def)
  qed
qed

text \<open>
  C10. Only \<open>fetchWithCache\<close> writes to the cache, and only the parsed body of a
  successful response: after any sequence of calls of the service from the empty cache,
  the payload of every entry is the body of a successful answer of the network to the
  request of one of the calls, and whatever \<open>fetchWithCache\<close> then returns is such a
  body or the body of its own successful fetch. A fetcher leaves the cache exactly as its
  call of \<open>fetchWithCache\<close> leaves it, whether it returns the view or the fallback.
\<close>

theorem cache_holds_responses:
  "(run ops Map.empty k = Some e \<longrightarrow> answered ops (data e))
   \<and> (fst (fetchWithCache rt (run ops Map.empty) endpoint params) = Inr d \<longrightarrow>
        answered ops d \<or> fetch rt (api_url rt endpoint params) = Ok d)
   \<and> snd (getCurrentWeather w c la lo)
        = snd (fetchWithCache (runtime_of w) c ''weather''
                 [(''lat'', PNum la), (''lon'', PNum lo), (''type'', PStr ''current'')])
   \<and> snd (getHourlyForecast w c la lo)
        = snd (fetchWithCache (runtime_of w) c ''weather''
                 [(''lat'', PNum la), (''lon'', PNum lo), (''type'', PStr ''forecast'')])
   \<and> snd (getDailyForecast w c la lo)
        = snd (fetchWithCache (runtime_of w) c ''weather''
                 [(''lat'', PNum la), (''lon'', PNum lo), (''type'', PStr ''onecall'')])
   \<and> snd (getWeatherAlerts w c la lo)
        = snd (fetchWithCache (runtime_of w) c ''weather''
                 [(''lat'', PNum la), (''lon'', PNum lo), (''type'', PStr ''onecall'')])"
proof -
  have a: "run ops Map.empty k = Some e \<longrightarrow> answered ops (data e)"
    using run_entries [of ops Map.empty k e] by simp
  have b: "fst (fetchWithCache rt (run ops Map.empty) endpoint params) = Inr d \<longrightarrow>
        answered ops d \<or> fetch rt (api_url rt endpoint params) = Ok d"
  proof
    assume "fst (fetchWithCache rt (run ops Map.empty) endpoint params) = Inr d"
    from fetchWithCache_result [OF this]
    show "answered ops d \<or> fetch rt (api_url rt endpoint params) = Ok d"
    proof
      assume "\<exists>k e. run ops Map.empty k = Some e \<and> data e = d"
      then obtain k' e' where "run ops Map.empty k' = Some e'" "data e' = d" by blast
      with run_entries [of ops Map.empty k' e'] show ?thesis by auto
    next
      assume "fetch rt (api_url rt endpoint params) = Ok d"
      then show ?thesis by simp
    qed
  qed
  show ?thesis
    by (intro conjI a b getCurrentWeather_cache getHourlyForecast_cache
        getDailyForecast_cache getWeatherAlerts_cache)
qed


lemma sample_run:
  "run [OpCurrent (serving sample_current) 1 2] Map.empty
     = Map.empty(getCacheKey (json_of_pval (number_text offline)) ''weather''
                   [(''lat'', PNum 1), (''lon'', PNum 2), (''type'', PStr ''current'')]
                 \<mapsto> \<lparr>data = sample_current, timestamp = 0\<rparr>)"
  by (simp add: run_def getCurrentWeather_cache fetchWithCache_def runtime_of_def serving_def
      offline_def Let_def)

theorem cache_holds_responses_witness:
  "run [OpCurrent (serving sample_current) 1 2] Map.empty
     (getCacheKey (json_of_pval (number_text offline)) ''weather''
        [(''lat'', PNum 1), (''lon'', PNum 2), (''type'', PStr ''current'')])
     = Some \<lparr>data = sample_current, timestamp = 0\<rparr>
   \<and> answered [OpCurrent (serving sample_current) 1 2] sample_current
   \<and> fst (fetchWithCache (runtime_of offline)
            (run [OpCurrent (serving sample_current) 1 2] Map.empty) ''weather''
            [(''lat'', PNum 1), (''lon'', PNum 2), (''type'', PStr ''current'')])
       = Inr sample_current
   \<and> fetch (runtime_of offline)
         (api_url (runtime_of offline) ''weather''
            [(''lat'', PNum 1), (''lon'', PNum 2), (''type'', PStr ''current'')])
       \<noteq> Ok sample_current"
proof -
  let ?ops = "[OpCurrent (serving sample_current) 1 2]"
  let ?params = "[(''lat'', PNum 1), (''lon'', PNum 2), (''type'', PStr ''current'')]"
  let ?key = "getCacheKey (json_of_pval (number_text offline)) ''weather'' ?params"
  have h: "run ?ops Map.empty ?key = Some \<lparr>data = sample_current, timestamp = 0\<rparr>"
    by (simp add: sample_run)
  have r: "fst (fetchWithCache (runtime_of offline) (run ?ops Map.empty) ''weather'' ?params)
             = Inr sample_current"
    unfolding sample_run
    by (simp add: fetchWithCache_def runtime_of_def offline_def Let_def isDataExpired_def
        CACHE_DURATION_def)
  have n: "fetch (runtime_of offline) (api_url (runtime_of offline) ''weather'' ?params)
             \<noteq> Ok sample_current"
    by (simp add: runtime_of_def offline_def)
  note t = cache_holds_responses [of ?ops ?key "\<lparr>data = sample_current, timestamp = 0\<rparr>"
      "runtime_of offline" "''weather''" ?params "sample_current"]
  have a: "answered ?ops sample_current"
    using t [THEN conjunct1] h by simp
  show ?thesis by (intro conjI h a r n)
qed

end
